theory Spec2Isabelle
  imports Main "HOL-Library.Word"
begin

unbundle bit_operations_syntax

section \<open>The runtime engine emitted by \<^verbatim>\<open>generator/mavgen_python.py\<close>\<close>

text \<open>
  The generator writes a Python module from templates.  The definitions below embed the
  runtime classes of those templates (\<^verbatim>\<open>MAVLink_header\<close>, \<^verbatim>\<open>MAVLink_message\<close>,
  \<^verbatim>\<open>MAVLinkSigning\<close>, \<^verbatim>\<open>MAVLink\<close>) with Python 3 semantics.  Python integers are
  \<^typ>\<open>int\<close>, buffer lengths and indices are \<^typ>\<open>nat\<close>, the elements of
  \<^verbatim>\<open>bytes\<close>, \<^verbatim>\<open>bytearray\<close> and \<^verbatim>\<open>array('B')\<close> values are 8-bit words.
\<close>

type_synonym byte = "8 word"

subsection \<open>Module constants\<close>

definition PROTOCOL_MARKER_V1 :: int where "PROTOCOL_MARKER_V1 = 0xFE"
definition PROTOCOL_MARKER_V2 :: int where "PROTOCOL_MARKER_V2 = 0xFD"
definition HEADER_LEN_V1 :: nat where "HEADER_LEN_V1 = 6"
definition HEADER_LEN_V2 :: nat where "HEADER_LEN_V2 = 10"
definition MAVLINK_SIGNATURE_BLOCK_LEN :: nat where "MAVLINK_SIGNATURE_BLOCK_LEN = 13"
definition MAVLINK_IFLAG_SIGNED :: int where "MAVLINK_IFLAG_SIGNED = 0x01"

subsection \<open>Errors\<close>

text \<open>
  One constructor for each \<^verbatim>\<open>raise MAVError(...)\<close> of the templates, named after the
  message, and one for each Python exception that the modelled code lets escape.
\<close>

datatype mav_reason =
    InvalidPrefix
  | InvalidIncompatFlags
  | HeaderUnpack
  | InvalidLength
  | CrcUnpack
  | InvalidCrc
  | InvalidSignature
  | BadMessageLength
  | PayloadUnpack
  | Instantiate

datatype error =
    MAVError mav_reason
  | IndexError
  | TypeError
  | StructError
  | AttributeError
  | UnboundLocalError

subsection \<open>Little-endian integers of \<^verbatim>\<open>struct\<close>\<close>

fun le_uint :: "byte list \<Rightarrow> int" where
  "le_uint [] = 0"
| "le_uint (b # bs) = uint b + 256 * le_uint bs"

fun le_bytes :: "nat \<Rightarrow> int \<Rightarrow> byte list" where
  "le_bytes 0 x = []"
| "le_bytes (Suc n) x = word_of_int x # le_bytes n (x div 256)"

subsection \<open>Signing state (\<^verbatim>\<open>class MAVLinkSigning\<close>)\<close>

text \<open>
  \<^verbatim>\<open>allow_unsigned_callback\<close> is called as \<^verbatim>\<open>callback(self, msgId)\<close>; it is modelled as a
  function of the message id that leaves the session alone.  \<^verbatim>\<open>stream_timestamps\<close> is the
  dictionary from \<^verbatim>\<open>(link_id, srcSystem, srcComponent)\<close> to a timestamp.
\<close>

type_synonym stream_key = "int \<times> int \<times> int"

record MAVLinkSigning =
  secret_key :: "byte list option"
  timestamp :: int
  link_id :: int
  sign_outgoing :: bool
  allow_unsigned_callback :: "(int \<Rightarrow> bool) option"
  stream_timestamps :: "stream_key \<rightharpoonup> int"
  sig_count :: nat
  badsig_count :: nat
  goodsig_count :: nat
  unsigned_count :: nat
  reject_count :: nat

text \<open>
  \<^verbatim>\<open>hashlib\<close> is not code of the repository: the SHA-256 function is a parameter
  \<open>sha256\<close> from the hashed bytes to the 256-bit digest, and \<open>digest\<close> lists the 32
  bytes of \<^verbatim>\<open>h.digest()\<close>, most significant first.
\<close>

definition digest :: "256 word \<Rightarrow> byte list" where
  "digest h = map (\<lambda>i. ucast (drop_bit (8 * (31 - i)) h)) [0..<32]"

text \<open>
  \<^verbatim>\<open>MAVLink.check_signature(self, msgbuf, srcSystem, srcComponent)\<close>.  The result pairs
  what the call returns or raises with the signing state it leaves behind.  \<open>r\<close> is the
  outcome of the timestamp block: \<open>None\<close> for its two \<^verbatim>\<open>return False\<close>, otherwise the
  signing state that reaches the digest comparison.
\<close>

definition check_signature ::
  "(byte list \<Rightarrow> 256 word) \<Rightarrow> MAVLinkSigning \<Rightarrow> byte list \<Rightarrow> int \<Rightarrow> int \<Rightarrow> (error + bool) \<times> MAVLinkSigning"
where
  "check_signature sha256 sg msgbuf srcSystem srcComponent =
    (let timestamp_buf = take 6 (drop (length msgbuf - 12) msgbuf) in
     if length msgbuf < 13 then (Inl IndexError, sg)
     else
       let lnk = uint (msgbuf ! (length msgbuf - 13));
           tlow = le_uint (take 4 timestamp_buf);
           thigh = le_uint (drop 4 timestamp_buf);
           ts = tlow + push_bit 32 thigh;
           stream_key = (lnk, srcSystem, srcComponent);
           r = (case stream_timestamps sg stream_key of
                  Some prev \<Rightarrow> if ts \<le> prev then None else Some sg
                | None \<Rightarrow>
                    if ts + 6000 * 1000 < timestamp sg then None
                    else Some (sg\<lparr>stream_timestamps := (stream_timestamps sg)(stream_key \<mapsto> ts)\<rparr>))
       in case r of
            None \<Rightarrow> (Inr False, sg)
          | Some sg1 \<Rightarrow>
              (case secret_key sg1 of
                 None \<Rightarrow> (Inl TypeError, sg1)
               | Some key \<Rightarrow>
                   let sig1 = take 6 (digest (sha256 (key @ take (length msgbuf - 6) msgbuf)));
                       sig2 = drop (length msgbuf - 6) msgbuf
                   in if sig1 \<noteq> sig2 then (Inr False, sg1)
                      else (Inr True, sg1\<lparr>timestamp := max (timestamp sg1) ts\<rparr>)))"

text \<open>The timestamp that \<open>check_signature\<close> reads at the tail of a frame.\<close>

definition frame_timestamp :: "byte list \<Rightarrow> int" where
  "frame_timestamp msgbuf =
    (let timestamp_buf = take 6 (drop (length msgbuf - 12) msgbuf)
     in le_uint (take 4 timestamp_buf) + push_bit 32 (le_uint (drop 4 timestamp_buf)))"

definition frame_stream_key :: "byte list \<Rightarrow> int \<Rightarrow> int \<Rightarrow> stream_key" where
  "frame_stream_key msgbuf srcSystem srcComponent =
    (uint (msgbuf ! (length msgbuf - 13)), srcSystem, srcComponent)"

definition digest_ok :: "(byte list \<Rightarrow> 256 word) \<Rightarrow> byte list \<Rightarrow> byte list \<Rightarrow> bool" where
  "digest_ok sha256 key msgbuf \<longleftrightarrow>
     take 6 (digest (sha256 (key @ take (length msgbuf - 6) msgbuf))) = drop (length msgbuf - 6) msgbuf"

subsection \<open>Python values and \<^verbatim>\<open>struct\<close>\<close>

text \<open>
  A Python \<^verbatim>\<open>str\<close> is the list of its code points.  Field values are integers,
  floats, \<^verbatim>\<open>bytes\<close>, \<^verbatim>\<open>bytearray\<close> and \<^verbatim>\<open>array('B')\<close> buffers, text and lists.
  A float is its IEEE 754 binary64 bit pattern together with the identity of the object:
  the comparison of two lists takes an element that is the same object on both sides as
  equal before it compares values, which shows for a NaN only, so that the identity of
  other values is not kept.  The \<^verbatim>\<open>f\<close> and \<^verbatim>\<open>d\<close> codes of \<^verbatim>\<open>mavfmt\<close>, which move floats
  through \<^verbatim>\<open>struct\<close>, are outside this embedding.  \<open>VReason r\<close> stands for the message
  text of the \<^verbatim>\<open>MAVError\<close> raised at \<open>r\<close>: the texts of two reasons differ, those of one
  reason are formatted from the frame and the module's tables and agree for the same
  frame, and none is the text \<^verbatim>\<open>'Bad prefix'\<close>.
\<close>

type_synonym pystr = "nat list"

definition str_of :: "string \<Rightarrow> pystr" where
  "str_of s = map of_char s"

datatype pyval =
    VInt int
  | VFloat nat "64 word"
  | VBytes "byte list"
  | VByteArray "byte list"
  | VArray "byte list"
  | VStr pystr
  | VList "pyval list"
  | VReason mav_reason










fun sequence_err :: "(error + 'a) list \<Rightarrow> error + 'a list" where
  "sequence_err [] = Inr []"
| "sequence_err (x # xs) =
     (case x of
        Inl e \<Rightarrow> Inl e
      | Inr v \<Rightarrow> (case sequence_err xs of Inl e \<Rightarrow> Inl e | Inr vs \<Rightarrow> Inr (v # vs)))"

definition concat_err :: "(error + byte list) list \<Rightarrow> error + byte list" where
  "concat_err xs = (case sequence_err xs of Inl e \<Rightarrow> Inl e | Inr bss \<Rightarrow> Inr (concat bss))"

definition py_nth :: "'a list \<Rightarrow> nat \<Rightarrow> error + 'a" where
  "py_nth xs i = (if i < length xs then Inr (xs ! i) else Inl IndexError)"

text \<open>
  The format codes that \<^verbatim>\<open>mavfmt\<close> emits for the integer and character types, and the
  items of a format string: \<open>Items n c\<close> is a code repeated \<open>n\<close> times (a scalar is
  \<open>Items 1 c\<close>), \<open>Chars n\<close> is \<^verbatim>\<open>ns\<close>.  A format is its byte order (the leading
  \<^verbatim>\<open><\<close> or \<^verbatim>\<open>>\<close>, so no padding) and its items.
\<close>

datatype fmt_code = Fc | Fb | FB | Fh | FH | Fi | FI | Fq | FQ

datatype fmt_item = Items nat fmt_code | Chars nat

record struct_fmt =
  little_endian :: bool
  items :: "fmt_item list"

fun code_size :: "fmt_code \<Rightarrow> nat" where
  "code_size Fc = 1"
| "code_size Fb = 1"
| "code_size FB = 1"
| "code_size Fh = 2"
| "code_size FH = 2"
| "code_size Fi = 4"
| "code_size FI = 4"
| "code_size Fq = 8"
| "code_size FQ = 8"

fun code_signed :: "fmt_code \<Rightarrow> bool" where
  "code_signed Fb = True"
| "code_signed Fh = True"
| "code_signed Fi = True"
| "code_signed Fq = True"
| "code_signed _ = False"

fun item_size :: "fmt_item \<Rightarrow> nat" where
  "item_size (Items n c) = n * code_size c"
| "item_size (Chars n) = n"

fun item_count :: "fmt_item \<Rightarrow> nat" where
  "item_count (Items n c) = n"
| "item_count (Chars n) = 1"

definition calcsize :: "struct_fmt \<Rightarrow> nat" where
  "calcsize fmt = sum_list (map item_size (items fmt))"

definition wire_order :: "bool \<Rightarrow> byte list \<Rightarrow> byte list" where
  "wire_order le bs = (if le then bs else rev bs)"

text \<open>One value of code \<open>c\<close> to and from its \<open>code_size c\<close> bytes.\<close>

definition pack_code :: "bool \<Rightarrow> fmt_code \<Rightarrow> pyval \<Rightarrow> error + byte list" where
  "pack_code le c v =
    (case v of
       VInt x \<Rightarrow>
         if c = Fc then Inl StructError
         else if code_signed c then
           (if - (2 ^ (8 * code_size c - 1)) \<le> x \<and> x < 2 ^ (8 * code_size c - 1)
            then Inr (wire_order le (le_bytes (code_size c) x)) else Inl StructError)
         else
           (if 0 \<le> x \<and> x < 2 ^ (8 * code_size c)
            then Inr (wire_order le (le_bytes (code_size c) x)) else Inl StructError)
     | VBytes b \<Rightarrow> if c = Fc \<and> length b = 1 then Inr b else Inl StructError
     | _ \<Rightarrow> Inl StructError)"

definition unpack_code :: "bool \<Rightarrow> fmt_code \<Rightarrow> byte list \<Rightarrow> pyval" where
  "unpack_code le c bs =
    (if c = Fc then VBytes bs
     else
       let u = le_uint (wire_order le bs)
       in if code_signed c \<and> 2 ^ (8 * code_size c - 1) \<le> u
          then VInt (u - 2 ^ (8 * code_size c)) else VInt u)"

text \<open>
  \<^verbatim>\<open>struct.unpack\<close> of a buffer that \<open>struct_unpack\<close> has checked to hold
  \<open>calcsize\<close> bytes: the values of the items, left to right.
\<close>

fun unpack_rep :: "bool \<Rightarrow> fmt_code \<Rightarrow> nat \<Rightarrow> byte list \<Rightarrow> pyval list" where
  "unpack_rep le c 0 bs = []"
| "unpack_rep le c (Suc n) bs =
     unpack_code le c (take (code_size c) bs) # unpack_rep le c n (drop (code_size c) bs)"

fun unpack_items :: "bool \<Rightarrow> fmt_item list \<Rightarrow> byte list \<Rightarrow> pyval list" where
  "unpack_items le [] bs = []"
| "unpack_items le (Chars n # its) bs = VBytes (take n bs) # unpack_items le its (drop n bs)"
| "unpack_items le (Items n c # its) bs =
     unpack_rep le c n (take (n * code_size c) bs) @ unpack_items le its (drop (n * code_size c) bs)"

definition struct_unpack :: "struct_fmt \<Rightarrow> byte list \<Rightarrow> error + pyval list" where
  "struct_unpack fmt bs =
    (if length bs \<noteq> calcsize fmt then Inl StructError
     else Inr (unpack_items (little_endian fmt) (items fmt) bs))"

text \<open>
  \<^verbatim>\<open>struct.pack\<close>: \<^verbatim>\<open>ns\<close> takes a \<^verbatim>\<open>bytes\<close> or \<^verbatim>\<open>bytearray\<close> value, cut or
  padded with NUL to \<open>n\<close> bytes; too few or too many arguments are a \<^verbatim>\<open>struct.error\<close>.
\<close>

fun pack_items :: "bool \<Rightarrow> fmt_item list \<Rightarrow> pyval list \<Rightarrow> error + byte list" where
  "pack_items le [] vs = (if vs = [] then Inr [] else Inl StructError)"
| "pack_items le (Chars n # its) vs =
     (case vs of
        VBytes b # vs' \<Rightarrow>
          (case pack_items le its vs' of
             Inl e \<Rightarrow> Inl e
           | Inr rest \<Rightarrow> Inr (take n b @ replicate (n - length b) 0 @ rest))
      | VByteArray b # vs' \<Rightarrow>
          (case pack_items le its vs' of
             Inl e \<Rightarrow> Inl e
           | Inr rest \<Rightarrow> Inr (take n b @ replicate (n - length b) 0 @ rest))
      | _ \<Rightarrow> Inl StructError)"
| "pack_items le (Items n c # its) vs =
     (if length vs < n then Inl StructError
      else
        case concat_err (map (pack_code le c) (take n vs)) of
          Inl e \<Rightarrow> Inl e
        | Inr bs \<Rightarrow>
            (case pack_items le its (drop n vs) of
               Inl e \<Rightarrow> Inl e
             | Inr rest \<Rightarrow> Inr (bs @ rest)))"

definition struct_pack :: "struct_fmt \<Rightarrow> pyval list \<Rightarrow> error + byte list" where
  "struct_pack fmt vs = pack_items (little_endian fmt) (items fmt) vs"

definition pack_B :: "int \<Rightarrow> error + byte list" where
  "pack_B x = pack_code True FB (VInt x)"

definition pack_H :: "int \<Rightarrow> error + byte list" where
  "pack_H x = pack_code True FH (VInt x)"

subsection \<open>Generated message classes and the module configuration\<close>

text \<open>
  A field of the protocol definition, as the generator reads it (\<^verbatim>\<open>field.name\<close>,
  \<^verbatim>\<open>field.type\<close>, \<^verbatim>\<open>field.array_length\<close>).
\<close>

record mavfield =
  fname :: string
  ftype :: string
  array_length :: nat

text \<open>
  The class attributes that \<^verbatim>\<open>generate_classes\<close> writes for one message
  (\<^verbatim>\<open>unpacker\<close> is \<^verbatim>\<open>struct.Struct(format)\<close>), and the two things it writes as code:
  \<open>init_defaults\<close> holds, for each parameter of the generated \<^verbatim>\<open>__init__\<close> in order,
  its default value if it has one, and \<open>pack_fields\<close> the ordered fields whose attributes
  the generated \<^verbatim>\<open>pack\<close> hands to \<^verbatim>\<open>struct.pack\<close>.
\<close>

record msgtype =
  msg_id :: int
  msg_name :: string
  fieldnames :: "string list"
  ordered_fieldnames :: "string list"
  fieldtypes :: "string list"
  format :: struct_fmt
  orders :: "nat list"
  lengths :: "nat list"
  array_lengths :: "nat list"
  crc_extra :: byte
  init_defaults :: "pyval option list"
  pack_fields :: "mavfield list"

text \<open>
  What the templates take from outside: the template variables
  (\<^verbatim>\<open>${WIRE_PROTOCOL_VERSION}\<close>, \<^verbatim>\<open>${PROTOCOL_MARKER}\<close>, \<^verbatim>\<open>${crc_extra}\<close>,
  \<^verbatim>\<open>${sort_fields}\<close>), the environment switch \<^verbatim>\<open>MAVLINK_IGNORE_CRC\<close>, the generated
  \<^verbatim>\<open>mavlink_map\<close>, and the library functions: \<open>x25crc buf\<close> is the 16-bit
  \<^verbatim>\<open>x25crc(buf).crc\<close> of \<^verbatim>\<open>pymavlink.generator.mavcrc\<close> (accumulating more bytes is
  the checksum of the longer buffer), \<open>sha256\<close> is \<^verbatim>\<open>hashlib\<close>'s digest,
  \<open>utf8_decode\<close> is \<^verbatim>\<open>bytes.decode("utf-8")\<close> with \<open>None\<close> where it raises.
\<close>

record config =
  WIRE_PROTOCOL_VERSION :: string
  PROTOCOL_MARKER :: int
  crc_extra_flag :: bool
  sort_fields :: bool
  MAVLINK_IGNORE_CRC :: bool
  mavlink_map :: "int \<rightharpoonup> msgtype"
  x25crc :: "byte list \<Rightarrow> 16 word"
  sha256 :: "byte list \<Rightarrow> 256 word"
  utf8_decode :: "byte list \<Rightarrow> pystr option"

subsection \<open>\<^verbatim>\<open>to_string\<close> and \<^verbatim>\<open>MAVString\<close>\<close>

text \<open>
  \<^verbatim>\<open>to_string(s)\<close> under Python 3.  For \<^verbatim>\<open>bytes\<close> and \<^verbatim>\<open>bytearray\<close> it is the
  decoded text, or \<^verbatim>\<open>'_XXX'\<close> when decoding raises (they have no \<^verbatim>\<open>encode\<close>, and
  adding an \<^verbatim>\<open>int\<close> to \<^verbatim>\<open>''\<close> raises at once).  An integer, a float, an array and a
  list of such values have neither \<^verbatim>\<open>decode\<close> nor \<^verbatim>\<open>encode\<close> and give \<^verbatim>\<open>'_XXX'\<close>
  too.  For a \<^verbatim>\<open>str\<close> argument Python returns \<^verbatim>\<open>s.encode('utf-8', 'ignore')\<close>; no
  call in the templates passes one or a list of them (\<^verbatim>\<open>format_attr\<close> passes
  \<^verbatim>\<open>bytes\<close> only, \<^verbatim>\<open>decode\<close> passes values of \<^verbatim>\<open>struct.unpack\<close>), and that branch
  is not modelled.
\<close>

definition to_string :: "config \<Rightarrow> pyval \<Rightarrow> pystr" where
  "to_string cfg s =
    (case s of
       VBytes b \<Rightarrow> (case utf8_decode cfg b of Some t \<Rightarrow> t | None \<Rightarrow> str_of ''_XXX'')
     | VByteArray b \<Rightarrow> (case utf8_decode cfg b of Some t \<Rightarrow> t | None \<Rightarrow> str_of ''_XXX'')
     | _ \<Rightarrow> str_of ''_XXX'')"

text \<open>\<^verbatim>\<open>str(MAVString(s))\<close>: the text up to the first NUL.\<close>

definition MAVString_str :: "pystr \<Rightarrow> pystr" where
  "MAVString_str s = takeWhile (\<lambda>c. c \<noteq> 0) s"


subsection \<open>Header and message instances\<close>

record header =
  mlen :: int
  hdr_seq :: int
  hdr_srcSystem :: int
  hdr_srcComponent :: int
  msgId :: int
  incompat_flags :: int
  compat_flags :: int

text \<open>\<^verbatim>\<open>MAVLink_header(msgId)\<close> with the defaults of its other parameters.\<close>

definition MAVLink_header :: "int \<Rightarrow> header" where
  "MAVLink_header i =
    \<lparr>mlen = 0, hdr_seq = 0, hdr_srcSystem = 0, hdr_srcComponent = 0, msgId = i,
     incompat_flags = 0, compat_flags = 0\<rparr>"

text \<open>\<^verbatim>\<open>MAVLink_header.pack(self, force_mavlink1)\<close>.\<close>

definition header_pack :: "config \<Rightarrow> header \<Rightarrow> bool \<Rightarrow> error + byte list" where
  "header_pack cfg h force_mavlink1 =
    (if WIRE_PROTOCOL_VERSION cfg = ''2.0'' \<and> \<not> force_mavlink1 then
       concat_err [pack_B (PROTOCOL_MARKER cfg), pack_B (mlen h),
                   pack_B (incompat_flags h), pack_B (compat_flags h),
                   pack_B (hdr_seq h), pack_B (hdr_srcSystem h), pack_B (hdr_srcComponent h),
                   pack_H (msgId h AND 0xFFFF), pack_B (drop_bit 16 (msgId h))]
     else
       concat_err [pack_B PROTOCOL_MARKER_V1, pack_B (mlen h), pack_B (hdr_seq h),
                   pack_B (hdr_srcSystem h), pack_B (hdr_srcComponent h), pack_B (msgId h)])"

text \<open>
  A \<^verbatim>\<open>MAVLink_message\<close> object: the attributes that \<^verbatim>\<open>__init__\<close> sets
  (\<^verbatim>\<open>_header\<close>, \<^verbatim>\<open>_payload\<close>, \<^verbatim>\<open>_msgbuf\<close>, \<^verbatim>\<open>_crc\<close>, \<^verbatim>\<open>_fieldnames\<close>,
  \<^verbatim>\<open>_type\<close>, \<^verbatim>\<open>_signed\<close>, \<^verbatim>\<open>_link_id\<close>) and, in \<open>m_attrs\<close>, the attributes that
  hold the field values.  The multi-instance attributes are not used by the methods below
  and are left out.
\<close>

record message =
  m_header :: header
  m_payload :: "byte list option"
  m_msgbuf :: "byte list option"
  m_crc :: "int option"
  m_fieldnames :: "string list"
  m_type :: string
  m_signed :: bool
  m_link_id :: "int option"
  m_attrs :: "(string \<times> pyval) list"

definition MAVLink_message :: "int \<Rightarrow> string \<Rightarrow> message" where
  "MAVLink_message i n =
    \<lparr>m_header = MAVLink_header i, m_payload = None, m_msgbuf = None, m_crc = None,
     m_fieldnames = [], m_type = n, m_signed = False, m_link_id = None, m_attrs = []\<rparr>"

definition MAVLINK_MSG_ID_BAD_DATA :: int where "MAVLINK_MSG_ID_BAD_DATA = - 1"
definition MAVLINK_MSG_ID_UNKNOWN :: int where "MAVLINK_MSG_ID_UNKNOWN = - 2"

text \<open>
  The bytes of a buffer object.  \<^verbatim>\<open>_msgbuf\<close> is kept as its bytes; the constructors
  below, which store their \<^verbatim>\<open>data\<close> argument there, are called with a \<^verbatim>\<open>bytearray\<close>
  or an \<^verbatim>\<open>array('B')\<close>.
\<close>

fun buffer_bytes :: "pyval \<Rightarrow> byte list option" where
  "buffer_bytes (VBytes b) = Some b"
| "buffer_bytes (VByteArray b) = Some b"
| "buffer_bytes (VArray b) = Some b"
| "buffer_bytes v = None"

text \<open>\<^verbatim>\<open>MAVLink_bad_data(data, reason)\<close>.\<close>

definition MAVLink_bad_data :: "pyval \<Rightarrow> pyval \<Rightarrow> message" where
  "MAVLink_bad_data data reason =
    (MAVLink_message MAVLINK_MSG_ID_BAD_DATA ''BAD_DATA'')
      \<lparr>m_fieldnames := [''data'', ''reason''],
       m_attrs := [(''data'', data), (''reason'', reason)],
       m_msgbuf := buffer_bytes data\<rparr>"

text \<open>The decimal digits that \<^verbatim>\<open>'%u' % n\<close> prints.\<close>

fun decimal :: "nat \<Rightarrow> string" where
  "decimal n = (if n < 10 then [char_of (48 + n)] else decimal (n div 10) @ [char_of (48 + n mod 10)])"

declare decimal.simps [simp del]

text \<open>\<^verbatim>\<open>MAVLink_unknown(msgid, data)\<close>.\<close>

definition MAVLink_unknown :: "int \<Rightarrow> pyval \<Rightarrow> message" where
  "MAVLink_unknown msgid data =
    (MAVLink_message MAVLINK_MSG_ID_UNKNOWN (''UNKNOWN_'' @ decimal (nat msgid)))
      \<lparr>m_fieldnames := [''data''],
       m_attrs := [(''data'', data)],
       m_msgbuf := buffer_bytes data\<rparr>"

text \<open>
  The generated \<^verbatim>\<open>__init__\<close> called as \<^verbatim>\<open>type(*t)\<close>: too many arguments, or too few
  for the parameters without a default, raise \<^verbatim>\<open>TypeError\<close>.
\<close>

definition instantiate :: "msgtype \<Rightarrow> pyval list \<Rightarrow> error + message" where
  "instantiate type t =
    (if length (init_defaults type) < length t then Inl TypeError
     else if None \<in> set (drop (length t) (init_defaults type)) then Inl TypeError
     else Inr ((MAVLink_message (msg_id type) (msg_name type))
                 \<lparr>m_fieldnames := fieldnames type,
                  m_attrs := zip (fieldnames type)
                               (t @ map the (drop (length t) (init_defaults type)))\<rparr>))"




subsection \<open>The session (\<^verbatim>\<open>class MAVLink\<close>)\<close>

text \<open>
  \<open>file_writes\<close> lists the buffers handed to \<^verbatim>\<open>self.file.write\<close>, oldest first.  The
  callbacks are unset and \<^verbatim>\<open>self.native\<close> is \<^verbatim>\<open>None\<close>, as \<^verbatim>\<open>__init__\<close> leaves
  them when native parsing is not asked for.
\<close>

record MAVLink =
  seq :: int
  file_writes :: "byte list list"
  srcSystem :: int
  srcComponent :: int
  buf :: "byte list"
  buf_index :: nat
  expected_length :: nat
  have_prefix_error :: bool
  robust_parsing :: bool
  total_packets_sent :: nat
  total_bytes_sent :: nat
  total_packets_received :: nat
  total_bytes_received :: nat
  total_receive_errors :: nat
  signing :: MAVLinkSigning

definition buf_len :: "MAVLink \<Rightarrow> int" where
  "buf_len mav = int (length (buf mav)) - int (buf_index mav)"

subsection \<open>\<^verbatim>\<open>MAVLink.decode\<close>\<close>

text \<open>
  The header block of \<^verbatim>\<open>decode\<close>: the header length, \<^verbatim>\<open>ord(magic)\<close> and the header
  fields read from the frame.
\<close>

definition decode_header :: "byte list \<Rightarrow> error + nat \<times> int \<times> header" where
  "decode_header msgbuf =
    (case msgbuf of
       [] \<Rightarrow> Inl IndexError
     | b0 # _ \<Rightarrow>
         if uint b0 \<noteq> PROTOCOL_MARKER_V1 then
           (if length (take 10 msgbuf) \<noteq> 10 then Inl (MAVError HeaderUnpack)
            else
              let msgIdlow = le_uint (take 2 (drop 7 msgbuf));
                  msgIdhigh = uint (msgbuf ! 9)
              in Inr (10, uint (msgbuf ! 0),
                   \<lparr>mlen = uint (msgbuf ! 1), hdr_seq = uint (msgbuf ! 4),
                    hdr_srcSystem = uint (msgbuf ! 5), hdr_srcComponent = uint (msgbuf ! 6),
                    msgId = msgIdlow OR push_bit 16 msgIdhigh,
                    incompat_flags = uint (msgbuf ! 2), compat_flags = uint (msgbuf ! 3)\<rparr>))
         else
           (if length (take 6 msgbuf) \<noteq> 6 then Inl (MAVError HeaderUnpack)
            else
              Inr (6, uint (msgbuf ! 0),
                   \<lparr>mlen = uint (msgbuf ! 1), hdr_seq = uint (msgbuf ! 2),
                    hdr_srcSystem = uint (msgbuf ! 3), hdr_srcComponent = uint (msgbuf ! 4),
                    msgId = uint (msgbuf ! 5),
                    incompat_flags = 0, compat_flags = 0\<rparr>)))"

text \<open>
  The signing block of \<^verbatim>\<open>decode\<close>, from \<^verbatim>\<open>sig_ok = False\<close> to
  \<^verbatim>\<open>raise MAVError('Invalid signature')\<close>: it returns \<^verbatim>\<open>sig_ok\<close> or the error, and
  the signing state.
\<close>

definition decode_signing ::
  "config \<Rightarrow> MAVLinkSigning \<Rightarrow> nat \<Rightarrow> byte list \<Rightarrow> int \<Rightarrow> int \<Rightarrow> int
     \<Rightarrow> (error + bool) \<times> MAVLinkSigning"
where
  "decode_signing cfg sg signature_len msgbuf srcSystem' srcComponent' msgId' =
    (let sg1 = (if signature_len = MAVLINK_SIGNATURE_BLOCK_LEN
                then sg\<lparr>sig_count := sig_count sg + 1\<rparr> else sg)
     in case secret_key sg1 of
          None \<Rightarrow> (Inr False, sg1)
        | Some _ \<Rightarrow>
            if signature_len = MAVLINK_SIGNATURE_BLOCK_LEN then
              (case check_signature (sha256 cfg) sg1 msgbuf srcSystem' srcComponent' of
                 (Inl e, sg2) \<Rightarrow> (Inl e, sg2)
               | (Inr sig_ok, sg2) \<Rightarrow>
                   let sg3 = (if sig_ok then sg2\<lparr>goodsig_count := goodsig_count sg2 + 1\<rparr>
                              else sg2\<lparr>badsig_count := badsig_count sg2 + 1\<rparr>)
                   in if sig_ok then (Inr sig_ok, sg3)
                      else
                        (case allow_unsigned_callback sg3 of
                           None \<Rightarrow> (Inl (MAVError InvalidSignature), sg3)
                         | Some cb \<Rightarrow>
                             if cb msgId'
                             then (Inr sig_ok, sg3\<lparr>unsigned_count := unsigned_count sg3 + 1\<rparr>)
                             else (Inl (MAVError InvalidSignature),
                                   sg3\<lparr>reject_count := reject_count sg3 + 1\<rparr>)))
            else
              (case allow_unsigned_callback sg1 of
                 None \<Rightarrow> (Inl (MAVError InvalidSignature), sg1)
               | Some cb \<Rightarrow>
                   if cb msgId'
                   then (Inr False, sg1\<lparr>unsigned_count := unsigned_count sg1 + 1\<rparr>)
                   else (Inl (MAVError InvalidSignature),
                         sg1\<lparr>reject_count := reject_count sg1 + 1\<rparr>)))"

text \<open>
  The field block of \<^verbatim>\<open>decode\<close>, from \<^verbatim>\<open>tlist = list(t)\<close> to \<^verbatim>\<open>t = tuple(tlist)\<close>:
  the two reorderings under \<^verbatim>\<open>${sort_fields}\<close>, then the termination of the strings.
  An index out of range raises \<^verbatim>\<open>IndexError\<close>.
\<close>

fun isinstance_str :: "pyval \<Rightarrow> bool" where
  "isinstance_str (VStr s) = True"
| "isinstance_str (VReason r) = True"
| "isinstance_str _ = False"

definition reorder_plain :: "pyval list \<Rightarrow> nat list \<Rightarrow> error + pyval list" where
  "reorder_plain t order_map =
    sequence_err (map (\<lambda>i. case py_nth order_map i of Inl e \<Rightarrow> Inl e | Inr k \<Rightarrow> py_nth t k)
                      [0..<length t])"

definition reorder_arrays :: "pyval list \<Rightarrow> nat list \<Rightarrow> nat list \<Rightarrow> error + pyval list" where
  "reorder_arrays t order_map len_map =
    sequence_err
      (map (\<lambda>i. let order = order_map ! i
                in case py_nth len_map order of
                     Inl e \<Rightarrow> Inl e
                   | Inr L \<Rightarrow>
                       (let tip = sum_list (take order len_map)
                        in case py_nth t tip of
                             Inl e \<Rightarrow> Inl e
                           | Inr field \<Rightarrow>
                               Inr (if L = 1 \<or> isinstance_str field then field
                                    else VList (take L (drop tip t)))))
           [0..<length order_map])"

definition terminate_strings :: "config \<Rightarrow> msgtype \<Rightarrow> pyval list \<Rightarrow> error + pyval list" where
  "terminate_strings cfg type tlist =
    sequence_err
      (map (\<lambda>i. case py_nth (fieldtypes type) i of
                  Inl e \<Rightarrow> Inl e
                | Inr ft \<Rightarrow>
                    Inr (if ft = ''char'' then VStr (MAVString_str (to_string cfg (tlist ! i)))
                         else tlist ! i))
           [0..<length tlist])"

definition decode_fields :: "config \<Rightarrow> msgtype \<Rightarrow> pyval list \<Rightarrow> error + pyval list" where
  "decode_fields cfg type t =
    (case (if sort_fields cfg then
             (if sum_list (lengths type) = length (lengths type)
              then reorder_plain t (orders type)
              else reorder_arrays t (orders type) (lengths type))
           else Inr t) of
       Inl e \<Rightarrow> Inl e
     | Inr tlist \<Rightarrow> terminate_strings cfg type tlist)"

text \<open>
  The zero padding of \<^verbatim>\<open>decode\<close>:
  \<^verbatim>\<open>if len(mbuf) < csize: mbuf.extend([0]*(csize - len(mbuf)))\<close>.
\<close>

definition zero_pad :: "nat \<Rightarrow> byte list \<Rightarrow> byte list" where
  "zero_pad csize mbuf =
    (if length mbuf < csize then mbuf @ replicate (csize - length mbuf) 0 else mbuf)"

text \<open>
  The payload block of \<^verbatim>\<open>decode\<close>, from \<^verbatim>\<open>csize = type.unpacker.size\<close> to
  \<^verbatim>\<open>m = type(*t)\<close>, on the payload slice \<^verbatim>\<open>msgbuf[headerlen:-(2+signature_len)]\<close>.
\<close>

definition decode_payload :: "config \<Rightarrow> msgtype \<Rightarrow> byte list \<Rightarrow> error + message" where
  "decode_payload cfg type mbuf0 =
    (let csize = calcsize (format type);
         mbuf = zero_pad csize mbuf0
     in
     if length mbuf < csize then Inl (MAVError BadMessageLength)
     else
      (case struct_unpack (format type) (take csize mbuf) of
         Inl e \<Rightarrow> Inl (MAVError PayloadUnpack)
       | Inr t \<Rightarrow>
          (case decode_fields cfg type t of
             Inl e \<Rightarrow> Inl e
           | Inr t' \<Rightarrow>
              (case instantiate type t' of
                 Inl e \<Rightarrow> Inl (MAVError Instantiate)
               | Inr m \<Rightarrow> Inr m))))"

text \<open>
  \<^verbatim>\<open>MAVLink.decode(self, msgbuf)\<close>: what it returns or raises, and the session after
  the call.  \<open>msgbuf\<close> is the \<^verbatim>\<open>array('B')\<close> that the parser hands over, which is what
  \<^verbatim>\<open>MAVLink_unknown\<close> keeps as its \<^verbatim>\<open>data\<close>.  Python's \<^verbatim>\<open>msgbuf[a:-k]\<close> is
  \<open>drop a (take (length msgbuf - k) msgbuf)\<close>.
\<close>

definition decode :: "config \<Rightarrow> MAVLink \<Rightarrow> byte list \<Rightarrow> (error + message) \<times> MAVLink" where
  "decode cfg mav msgbuf =
    (case decode_header msgbuf of
       Inl e \<Rightarrow> (Inl e, mav)
     | Inr (headerlen, magic, h) \<Rightarrow>
        (let signature_len =
               (if incompat_flags h AND MAVLINK_IFLAG_SIGNED \<noteq> 0
                then MAVLINK_SIGNATURE_BLOCK_LEN else 0)
         in
         if magic \<noteq> PROTOCOL_MARKER_V1 \<and> magic \<noteq> PROTOCOL_MARKER_V2
         then (Inl (MAVError InvalidPrefix), mav)
         else if mlen h \<noteq> int (length msgbuf) - int (headerlen + 2 + signature_len)
         then (Inl (MAVError InvalidLength), mav)
         else
          (case mavlink_map cfg (msgId h) of
             None \<Rightarrow> (Inr (MAVLink_unknown (msgId h) (VArray msgbuf)), mav)
           | Some type \<Rightarrow>
              (let crcbytes = take 2 (drop (length msgbuf - (2 + signature_len)) msgbuf) in
               if length crcbytes \<noteq> 2 then (Inl (MAVError CrcUnpack), mav)
               else
                (let crc = le_uint crcbytes;
                     crcbuf = drop 1 (take (length msgbuf - (2 + signature_len)) msgbuf)
                              @ (if crc_extra_flag cfg then [crc_extra type] else []);
                     crc2 = uint (x25crc cfg crcbuf)
                 in
                 if crc \<noteq> crc2 \<and> \<not> MAVLINK_IGNORE_CRC cfg
                 then (Inl (MAVError InvalidCrc), mav)
                 else
                  (case decode_signing cfg (signing mav) signature_len msgbuf
                          (hdr_srcSystem h) (hdr_srcComponent h) (msgId h) of
                     (Inl e, sg) \<Rightarrow> (Inl e, mav\<lparr>signing := sg\<rparr>)
                   | (Inr sig_ok, sg) \<Rightarrow>
                      (case decode_payload cfg type
                              (drop headerlen (take (length msgbuf - (2 + signature_len)) msgbuf)) of
                         Inl e \<Rightarrow> (Inl e, mav\<lparr>signing := sg\<rparr>)
                       | Inr m \<Rightarrow>
                           (Inr (m\<lparr>m_signed := sig_ok,
                                   m_link_id :=
                                     (if sig_ok then Some (uint (msgbuf ! (length msgbuf - 13)))
                                      else None),
                                   m_msgbuf := Some msgbuf,
                                   m_payload :=
                                     Some (drop 6 (take (length msgbuf - (2 + signature_len)) msgbuf)),
                                   m_crc := Some crc,
                                   m_header := h\<rparr>),
                            mav\<lparr>signing := sg\<rparr>))))))))"

subsection \<open>The streaming parser\<close>

text \<open>
  \<^verbatim>\<open>MAVLink.__parse_char_legacy(self)\<close>.  \<open>h3\<close> holds the locals \<^verbatim>\<open>magic\<close> and
  \<^verbatim>\<open>incompat_flags\<close> and the length byte, which are bound only when three bytes are
  buffered.  In robust mode a \<^verbatim>\<open>MAVError\<close> becomes a \<^verbatim>\<open>MAVLink_bad_data\<close>; any other
  exception escapes.
\<close>

definition parse_char_legacy :: "config \<Rightarrow> MAVLink \<Rightarrow> (error + message option) \<times> MAVLink" where
  "parse_char_legacy cfg mav =
    (let header_len =
           (if 1 \<le> buf_len mav \<and> uint (buf mav ! buf_index mav) = PROTOCOL_MARKER_V2
            then HEADER_LEN_V2 else HEADER_LEN_V1)
     in
     if 1 \<le> buf_len mav \<and> uint (buf mav ! buf_index mav) \<noteq> PROTOCOL_MARKER_V1
          \<and> uint (buf mav ! buf_index mav) \<noteq> PROTOCOL_MARKER_V2
     then
      (let magic = buf mav ! buf_index mav;
           mav1 = mav\<lparr>buf_index := buf_index mav + 1\<rparr>
       in
       if robust_parsing mav1 then
         (Inr (Some (MAVLink_bad_data (VByteArray [magic]) (VStr (str_of ''Bad prefix'')))),
          mav1\<lparr>expected_length := header_len + 2,
               total_receive_errors := total_receive_errors mav1 + 1\<rparr>)
       else if have_prefix_error mav1 then (Inr None, mav1)
       else (Inl (MAVError InvalidPrefix),
             mav1\<lparr>have_prefix_error := True,
                  total_receive_errors := total_receive_errors mav1 + 1\<rparr>))
     else
      (let mav1 = mav\<lparr>have_prefix_error := False\<rparr>;
           h3 = (if 3 \<le> buf_len mav1
                 then Some (uint (buf mav1 ! buf_index mav1),
                            unat (buf mav1 ! (buf_index mav1 + 1)),
                            uint (buf mav1 ! (buf_index mav1 + 2)))
                 else None);
           mav2 = (case h3 of
                     None \<Rightarrow> mav1
                   | Some (magic, len, incompat) \<Rightarrow>
                       mav1\<lparr>expected_length :=
                              (if magic = PROTOCOL_MARKER_V2 \<and> incompat AND MAVLINK_IFLAG_SIGNED \<noteq> 0
                               then len + MAVLINK_SIGNATURE_BLOCK_LEN else len)
                              + (header_len + 2)\<rparr>)
       in
       if header_len + 2 \<le> expected_length mav2 \<and> int (expected_length mav2) \<le> buf_len mav2
       then
        (let mbuf = take (expected_length mav2) (drop (buf_index mav2) (buf mav2));
             mav3 = mav2\<lparr>buf_index := buf_index mav2 + expected_length mav2,
                         expected_length := header_len + 2\<rparr>
         in
         case h3 of
           None \<Rightarrow> (Inl UnboundLocalError, mav3)
         | Some (magic, len, incompat) \<Rightarrow>
            (let r = (if magic = PROTOCOL_MARKER_V2 \<and> incompat AND NOT MAVLINK_IFLAG_SIGNED \<noteq> 0
                      then (Inl (MAVError InvalidIncompatFlags), mav3)
                      else decode cfg mav3 mbuf)
             in
             if robust_parsing mav3 then
              (case r of
                 (Inl (MAVError reason), mav4) \<Rightarrow>
                   (Inr (Some (MAVLink_bad_data (VArray mbuf) (VReason reason))),
                    mav4\<lparr>total_receive_errors := total_receive_errors mav4 + 1\<rparr>)
               | (Inl e, mav4) \<Rightarrow> (Inl e, mav4)
               | (Inr m, mav4) \<Rightarrow> (Inr (Some m), mav4))
             else
              (case r of
                 (Inl e, mav4) \<Rightarrow> (Inl e, mav4)
               | (Inr m, mav4) \<Rightarrow> (Inr (Some m), mav4))))
       else (Inr None, mav2)))"

text \<open>\<^verbatim>\<open>MAVLink.parse_char(self, c)\<close> with \<^verbatim>\<open>self.native\<close> unset and no callback.\<close>

definition parse_char :: "config \<Rightarrow> MAVLink \<Rightarrow> byte list \<Rightarrow> (error + message option) \<times> MAVLink" where
  "parse_char cfg mav c =
    (let mav1 = mav\<lparr>buf := buf mav @ c,
                     total_bytes_received := total_bytes_received mav + length c\<rparr>
     in case parse_char_legacy cfg mav1 of
          (Inl e, mav2) \<Rightarrow> (Inl e, mav2)
        | (Inr (Some m), mav2) \<Rightarrow>
            (Inr (Some m), mav2\<lparr>total_packets_received := total_packets_received mav2 + 1\<rparr>)
        | (Inr None, mav2) \<Rightarrow>
            (Inr None,
             if buf_len mav2 = 0 \<and> buf_index mav2 \<noteq> 0
             then mav2\<lparr>buf := [], buf_index := 0\<rparr> else mav2))"

subsection \<open>The candidate frame of the streaming parser\<close>

text \<open>
  The expected total frame length in the words of the specification, read from the three
  bytes at the read position: the header length (6 for MAVLink 1, 10 for MAVLink 2) plus
  the payload length byte plus 2 checksum bytes, plus 13 exactly when the magic is the
  MAVLink 2 marker and the signed bit of the incompatibility flags is set.
\<close>

definition candidate_header_len :: "MAVLink \<Rightarrow> nat" where
  "candidate_header_len mav =
    (if uint (buf mav ! buf_index mav) = PROTOCOL_MARKER_V2 then HEADER_LEN_V2 else HEADER_LEN_V1)"

definition candidate_signed :: "MAVLink \<Rightarrow> bool" where
  "candidate_signed mav =
    (uint (buf mav ! buf_index mav) = PROTOCOL_MARKER_V2
     \<and> uint (buf mav ! (buf_index mav + 2)) AND MAVLINK_IFLAG_SIGNED \<noteq> 0)"

definition candidate_length :: "MAVLink \<Rightarrow> nat" where
  "candidate_length mav =
    candidate_header_len mav + unat (buf mav ! (buf_index mav + 1)) + 2
      + (if candidate_signed mav then MAVLINK_SIGNATURE_BLOCK_LEN else 0)"

text \<open>
  The bytes of the candidate frame, the test of
  \<^verbatim>\<open>magic == PROTOCOL_MARKER_V2 and (incompat_flags & ~MAVLINK_IFLAG_SIGNED) != 0\<close>, the
  session once the candidate frame has been taken from the buffer, and what the parser
  then gets for it: the \<^verbatim>\<open>'invalid incompat_flags'\<close> error or the outcome of
  \<^verbatim>\<open>decode\<close>.
\<close>

definition candidate_frame :: "MAVLink \<Rightarrow> byte list" where
  "candidate_frame mav = take (candidate_length mav) (drop (buf_index mav) (buf mav))"

definition candidate_bad_flags :: "MAVLink \<Rightarrow> bool" where
  "candidate_bad_flags mav =
    (uint (buf mav ! buf_index mav) = PROTOCOL_MARKER_V2
     \<and> uint (buf mav ! (buf_index mav + 2)) AND NOT MAVLINK_IFLAG_SIGNED \<noteq> 0)"

definition consumed :: "MAVLink \<Rightarrow> MAVLink" where
  "consumed mav =
    mav\<lparr>have_prefix_error := False,
        buf_index := buf_index mav + candidate_length mav,
        expected_length := candidate_header_len mav + 2\<rparr>"

definition candidate_result :: "config \<Rightarrow> MAVLink \<Rightarrow> (error + message) \<times> MAVLink" where
  "candidate_result cfg mav =
    (if candidate_bad_flags mav
     then (Inl (MAVError InvalidIncompatFlags), consumed mav)
     else decode cfg (consumed mav) (candidate_frame mav))"

subsection \<open>Packing and sending\<close>

text \<open>
  The loop \<^verbatim>\<open>while plen > 1 and payload[plen-1] == nullbyte: plen -= 1\<close> of
  \<^verbatim>\<open>MAVLink_message.pack\<close>, started at \<open>plen\<close>.
\<close>

fun strip_zeros :: "byte list \<Rightarrow> nat \<Rightarrow> nat" where
  "strip_zeros payload 0 = 0"
| "strip_zeros payload (Suc n) =
     (if 1 < Suc n \<and> payload ! n = 0 then strip_zeros payload n else Suc n)"

text \<open>
  \<^verbatim>\<open>MAVLink_message.sign_packet(self, mav)\<close> on the frame built so far: the signed
  frame, and the signing state with its timestamp advanced.
\<close>

definition sign_packet ::
  "config \<Rightarrow> MAVLinkSigning \<Rightarrow> byte list \<Rightarrow> (error + byte list) \<times> MAVLinkSigning"
where
  "sign_packet cfg sg msgbuf =
    (case concat_err [pack_B (link_id sg), pack_code True FQ (VInt (timestamp sg))] of
       Inl e \<Rightarrow> (Inl e, sg)
     | Inr bq \<Rightarrow>
        (let msgbuf1 = msgbuf @ take 7 bq
         in case secret_key sg of
              None \<Rightarrow> (Inl TypeError, sg)
            | Some key \<Rightarrow>
                (Inr (msgbuf1 @ take 6 (digest (sha256 cfg (key @ msgbuf1)))),
                 sg\<lparr>timestamp := timestamp sg + 1\<rparr>)))"

text \<open>
  \<^verbatim>\<open>MAVLink_message.pack(self, mav, crc_extra, payload, force_mavlink1)\<close>: the frame it
  returns with the message as the call leaves it, or the exception, and the session after
  the call.
\<close>

definition pack ::
  "config \<Rightarrow> message \<Rightarrow> MAVLink \<Rightarrow> byte \<Rightarrow> byte list \<Rightarrow> bool
     \<Rightarrow> (error + byte list \<times> message) \<times> MAVLink"
where
  "pack cfg self mav crc_extra' payload force_mavlink1 =
    (let plen = (if WIRE_PROTOCOL_VERSION cfg \<noteq> ''1.0'' \<and> \<not> force_mavlink1
                 then strip_zeros payload (length payload) else length payload);
         payload' = take plen payload;
         incompat = (if sign_outgoing (signing mav) then 0 OR MAVLINK_IFLAG_SIGNED else 0);
         h = \<lparr>mlen = int (length payload'), hdr_seq = seq mav,
              hdr_srcSystem = srcSystem mav, hdr_srcComponent = srcComponent mav,
              msgId = msgId (m_header self), incompat_flags = incompat, compat_flags = 0\<rparr>
     in case header_pack cfg h force_mavlink1 of
          Inl e \<Rightarrow> (Inl e, mav)
        | Inr hb \<Rightarrow>
           (let msgbuf = hb @ payload';
                crc = uint (x25crc cfg (drop 1 msgbuf
                                        @ (if crc_extra_flag cfg then [crc_extra'] else [])));
                msgbuf2 = msgbuf @ le_bytes 2 crc;
                self1 = self\<lparr>m_payload := Some payload', m_header := h,
                             m_msgbuf := Some msgbuf2, m_crc := Some crc\<rparr>
            in
            if sign_outgoing (signing mav) \<and> \<not> force_mavlink1 then
             (case sign_packet cfg (signing mav) msgbuf2 of
                (Inl e, sg) \<Rightarrow> (Inl e, mav\<lparr>signing := sg\<rparr>)
              | (Inr msgbuf3, sg) \<Rightarrow>
                  (Inr (msgbuf3, self1\<lparr>m_msgbuf := Some msgbuf3\<rparr>), mav\<lparr>signing := sg\<rparr>))
            else (Inr (msgbuf2, self1), mav)))"

text \<open>
  The arguments that the generated \<^verbatim>\<open>pack\<close> of a message class gives to
  \<^verbatim>\<open>struct.pack\<close>: \<^verbatim>\<open>self.f[0], ..., self.f[n-1]\<close> for an array field that is not
  \<^verbatim>\<open>char\<close>, \<^verbatim>\<open>self.f\<close> otherwise.
\<close>

definition py_index :: "pyval \<Rightarrow> nat \<Rightarrow> error + pyval" where
  "py_index v i =
    (case v of
       VList xs \<Rightarrow> py_nth xs i
     | VBytes b \<Rightarrow> (if i < length b then Inr (VInt (uint (b ! i))) else Inl IndexError)
     | VByteArray b \<Rightarrow> (if i < length b then Inr (VInt (uint (b ! i))) else Inl IndexError)
     | VArray b \<Rightarrow> (if i < length b then Inr (VInt (uint (b ! i))) else Inl IndexError)
     | VStr s \<Rightarrow> (if i < length s then Inr (VStr [s ! i]) else Inl IndexError)
     | _ \<Rightarrow> Inl TypeError)"

definition field_args :: "message \<Rightarrow> mavfield \<Rightarrow> (error + pyval) list" where
  "field_args self f =
    (case map_of (m_attrs self) (fname f) of
       None \<Rightarrow> [Inl AttributeError]
     | Some v \<Rightarrow>
         if ftype f \<noteq> ''char'' \<and> 1 < array_length f
         then map (py_index v) [0..<array_length f]
         else [Inr v])"

text \<open>The generated \<^verbatim>\<open>pack(self, mav, force_mavlink1)\<close> of the class \<open>type\<close>.\<close>

definition message_pack ::
  "config \<Rightarrow> msgtype \<Rightarrow> message \<Rightarrow> MAVLink \<Rightarrow> bool
     \<Rightarrow> (error + byte list \<times> message) \<times> MAVLink"
where
  "message_pack cfg type self mav force_mavlink1 =
    (case sequence_err (concat (map (field_args self) (pack_fields type))) of
       Inl e \<Rightarrow> (Inl e, mav)
     | Inr args \<Rightarrow>
        (case struct_pack (format type) args of
           Inl e \<Rightarrow> (Inl e, mav)
         | Inr payload \<Rightarrow> pack cfg self mav (crc_extra type) payload force_mavlink1))"

text \<open>
  \<^verbatim>\<open>MAVLink.send(self, mavmsg, force_mavlink1)\<close> for a message of the class \<open>type\<close>,
  with no send callback.  Python's \<^verbatim>\<open>send\<close> returns nothing; the model returns the
  message as \<^verbatim>\<open>pack\<close> left it.
\<close>

definition send ::
  "config \<Rightarrow> MAVLink \<Rightarrow> msgtype \<Rightarrow> message \<Rightarrow> bool \<Rightarrow> (error + message) \<times> MAVLink"
where
  "send cfg mav type mavmsg force_mavlink1 =
    (case message_pack cfg type mavmsg mav force_mavlink1 of
       (Inl e, mav1) \<Rightarrow> (Inl e, mav1)
     | (Inr (buf', m1), mav1) \<Rightarrow>
         (Inr m1,
          mav1\<lparr>file_writes := file_writes mav1 @ [buf'],
               seq := (seq mav1 + 1) mod 256,
               total_packets_sent := total_packets_sent mav1 + 1,
               total_bytes_sent := total_bytes_sent mav1 + length buf'\<rparr>))"

subsection \<open>Library functions for the examples\<close>

text \<open>
  Modelled from the spec: the checksum class \<^verbatim>\<open>x25crc\<close> of
  \<^verbatim>\<open>pymavlink.generator.mavcrc\<close> is not among the sources.  Section 4.1 of the
  specification describes it as the X25 CRC over a 16-bit register initialised to
  \<open>0xFFFF\<close>, accumulated byte by byte; \<open>crc_accumulate\<close> is the byte step of that CRC.
\<close>

definition crc_accumulate :: "16 word \<Rightarrow> byte \<Rightarrow> 16 word" where
  "crc_accumulate accum b =
    (let tmp = b XOR ucast (accum AND 0xFF);
         tmp2 = tmp XOR push_bit 4 tmp
     in drop_bit 8 accum XOR push_bit 8 (ucast tmp2) XOR push_bit 3 (ucast tmp2)
          XOR drop_bit 4 (ucast tmp2))"

definition x25crc_spec :: "byte list \<Rightarrow> 16 word" where
  "x25crc_spec bs = foldl crc_accumulate 0xFFFF bs"

text \<open>
  The examples need some hash and some text decoder.  \<open>example_hash\<close> stands in for
  SHA-256 (a polynomial checksum of the hashed bytes, moved to the leading bytes of the
  digest), and \<open>ascii_decode\<close> is
  UTF-8 decoding on its ASCII range, refusing every other byte.
\<close>

definition example_hash :: "byte list \<Rightarrow> 256 word" where
  "example_hash bs = push_bit 208 (foldl (\<lambda>h b. h * 31 + ucast b) 7 bs)"

definition ascii_decode :: "byte list \<Rightarrow> pystr option" where
  "ascii_decode bs = (if list_all (\<lambda>b. b < 128) bs then Some (map unat bs) else None)"

subsection \<open>Shorthands for stating the results of \<^verbatim>\<open>decode\<close>\<close>

text \<open>
  \<open>signature_len_of h\<close> is the local \<^verbatim>\<open>signature_len\<close> of \<^verbatim>\<open>decode\<close> for the header
  \<open>h\<close>, and \<open>decoded h msgbuf sig_ok m\<close> is the message \<open>m\<close> after the assignments
  at the end of \<^verbatim>\<open>decode\<close>.
\<close>

definition signature_len_of :: "header \<Rightarrow> nat" where
  "signature_len_of h =
    (if incompat_flags h AND MAVLINK_IFLAG_SIGNED \<noteq> 0 then MAVLINK_SIGNATURE_BLOCK_LEN else 0)"

definition decoded :: "header \<Rightarrow> byte list \<Rightarrow> bool \<Rightarrow> message \<Rightarrow> message" where
  "decoded h msgbuf sig_ok m =
     m\<lparr>m_signed := sig_ok,
       m_link_id := (if sig_ok then Some (uint (msgbuf ! (length msgbuf - 13))) else None),
       m_msgbuf := Some msgbuf,
       m_payload := Some (drop 6 (take (length msgbuf - (2 + signature_len_of h)) msgbuf)),
       m_crc := Some (le_uint (take 2 (drop (length msgbuf - (2 + signature_len_of h)) msgbuf))),
       m_header := h\<rparr>"

text \<open>
  The part of \<^verbatim>\<open>decode\<close> that turns the payload buffer into the message, from
  \<^verbatim>\<open>t = type.unpacker.unpack(mbuf)\<close> to \<^verbatim>\<open>m = type(*t)\<close>, on a buffer \<open>bs\<close>.
\<close>

definition decode_unpacked :: "config \<Rightarrow> msgtype \<Rightarrow> byte list \<Rightarrow> error + message" where
  "decode_unpacked cfg type bs =
    (case struct_unpack (format type) bs of
       Inl e \<Rightarrow> Inl (MAVError PayloadUnpack)
     | Inr t \<Rightarrow>
        (case decode_fields cfg type t of
           Inl e \<Rightarrow> Inl e
         | Inr t' \<Rightarrow>
            (case instantiate type t' of
               Inl e \<Rightarrow> Inl (MAVError Instantiate)
             | Inr m \<Rightarrow> Inr m)))"

subsection \<open>Shorthands for stating the results of \<^verbatim>\<open>pack\<close>\<close>

text \<open>
  The payload that \<^verbatim>\<open>pack\<close> keeps (\<^verbatim>\<open>payload[:plen]\<close>), the header it builds, and
  the frame before signing: header, payload and the two checksum bytes.
\<close>

definition pack_payload :: "config \<Rightarrow> byte list \<Rightarrow> bool \<Rightarrow> byte list" where
  "pack_payload cfg payload force_mavlink1 =
    take (if WIRE_PROTOCOL_VERSION cfg \<noteq> ''1.0'' \<and> \<not> force_mavlink1
          then strip_zeros payload (length payload) else length payload) payload"

definition pack_header :: "config \<Rightarrow> message \<Rightarrow> MAVLink \<Rightarrow> byte list \<Rightarrow> bool \<Rightarrow> header" where
  "pack_header cfg self mav payload force_mavlink1 =
    \<lparr>mlen = int (length (pack_payload cfg payload force_mavlink1)), hdr_seq = seq mav,
     hdr_srcSystem = srcSystem mav, hdr_srcComponent = srcComponent mav,
     msgId = msgId (m_header self),
     incompat_flags = (if sign_outgoing (signing mav) then 0 OR MAVLINK_IFLAG_SIGNED else 0),
     compat_flags = 0\<rparr>"

definition pack_unsigned :: "config \<Rightarrow> byte list \<Rightarrow> byte \<Rightarrow> byte list \<Rightarrow> byte list" where
  "pack_unsigned cfg hb ce p =
    (hb @ p) @ le_bytes 2 (uint (x25crc cfg (drop 1 (hb @ p)
                                            @ (if crc_extra_flag cfg then [ce] else []))))"

subsection \<open>Example sessions and frames\<close>

text \<open>
  A signing state with the key \<open>[1, 2, 3]\<close> whose clock stands at 7 000 000, and the
  13-byte tail of a signed frame (link id 5, a 48-bit timestamp, the six digest bytes of
  \<open>example_hash\<close>).
\<close>

definition example_signing :: MAVLinkSigning where
  "example_signing =
    \<lparr>secret_key = Some [1, 2, 3], timestamp = 7000000, link_id = 0, sign_outgoing = True,
     allow_unsigned_callback = None, stream_timestamps = Map.empty, sig_count = 0,
     badsig_count = 0, goodsig_count = 0, unsigned_count = 0, reject_count = 0\<rparr>"

definition example_tail :: "int \<Rightarrow> byte list" where
  "example_tail ts =
    (let body = 5 # le_bytes 6 ts
     in body @ take 6 (digest (example_hash ([1, 2, 3] @ body))))"

text \<open>
  A message class with the fields \<open>a\<close> (\<^verbatim>\<open>uint8_t\<close>) and \<open>b\<close> (\<^verbatim>\<open>uint16_t\<close>), sent as
  \<open>b\<close> then \<open>a\<close>, as the generator writes it; a MAVLink 2 configuration that knows this
  class under the id 0; a session of system 1, component 1 that does not sign; and a
  message of the class.
\<close>

definition example_type :: msgtype where
  "example_type =
    \<lparr>msg_id = 0, msg_name = ''EXAMPLE'',
     fieldnames = [''a'', ''b''], ordered_fieldnames = [''b'', ''a''],
     fieldtypes = [''uint8_t'', ''uint16_t''],
     format = \<lparr>little_endian = True, items = [Items 1 FH, Items 1 FB]\<rparr>,
     orders = [1, 0], lengths = [1, 1], array_lengths = [0, 0], crc_extra = 50,
     init_defaults = [None, None],
     pack_fields = [\<lparr>fname = ''b'', ftype = ''uint16_t'', array_length = 0\<rparr>,
                    \<lparr>fname = ''a'', ftype = ''uint8_t'', array_length = 0\<rparr>]\<rparr>"

definition example_cfg :: config where
  "example_cfg =
    \<lparr>WIRE_PROTOCOL_VERSION = ''2.0'', PROTOCOL_MARKER = 0xFD, crc_extra_flag = True,
     sort_fields = True, MAVLINK_IGNORE_CRC = False,
     mavlink_map = [0 \<mapsto> example_type],
     x25crc = x25crc_spec, sha256 = example_hash, utf8_decode = ascii_decode\<rparr>"

definition no_signing :: MAVLinkSigning where
  "no_signing =
    \<lparr>secret_key = None, timestamp = 0, link_id = 0, sign_outgoing = False,
     allow_unsigned_callback = None, stream_timestamps = Map.empty, sig_count = 0,
     badsig_count = 0, goodsig_count = 0, unsigned_count = 0, reject_count = 0\<rparr>"

definition example_mav :: MAVLink where
  "example_mav =
    \<lparr>seq = 0, file_writes = [], srcSystem = 1, srcComponent = 1, buf = [], buf_index = 0,
     expected_length = HEADER_LEN_V1 + 2, have_prefix_error = False, robust_parsing = False,
     total_packets_sent = 0, total_bytes_sent = 0, total_packets_received = 0,
     total_bytes_received = 0, total_receive_errors = 0, signing = no_signing\<rparr>"

definition example_msg :: "int \<Rightarrow> int \<Rightarrow> message" where
  "example_msg a b =
    (MAVLink_message 0 ''EXAMPLE'')
      \<lparr>m_fieldnames := [''a'', ''b''], m_attrs := [(''a'', VInt a), (''b'', VInt b)]\<rparr>"

text \<open>
  The frames that \<open>example_msg 7 0x1234\<close> packs to in that session, as MAVLink 2 and with
  \<^verbatim>\<open>force_mavlink1\<close>, and the header that \<^verbatim>\<open>decode\<close> reads from either.
\<close>

definition frame_v2 :: "byte list" where
  "frame_v2 = [253, 3, 0, 0, 0, 1, 1, 0, 0, 0, 52, 18, 7, 11, 163]"

definition frame_v1 :: "byte list" where
  "frame_v1 = [254, 3, 0, 1, 1, 0, 52, 18, 7, 75, 82]"

text \<open>A MAVLink 1 frame with the message id 1, which \<open>example_cfg\<close> does not register.\<close>

definition frame_unknown :: "byte list" where
  "frame_unknown = [254, 3, 0, 1, 1, 1, 52, 18, 7, 0, 0]"

definition example_header :: "int \<Rightarrow> header" where
  "example_header n =
    \<lparr>mlen = n, hdr_seq = 0, hdr_srcSystem = 1, hdr_srcComponent = 1, msgId = 0,
     incompat_flags = 0, compat_flags = 0\<rparr>"






section \<open>Properties\<close>

subsection \<open>Errors that the blocks of \<^verbatim>\<open>decode\<close> can raise\<close>

lemma length_digest: "length (digest h) = 32"
  by (simp add: digest_def)

lemma zero_pad_length: "csize \<le> length (zero_pad csize mbuf)"
  by (simp add: zero_pad_def)

lemma sequence_err_Inl: "sequence_err xs = Inl e \<Longrightarrow> Inl e \<in> set xs"
  by (induction xs) (auto split: sum.splits)

lemma py_nth_Inl: "py_nth xs i = Inl e \<Longrightarrow> e = IndexError"
  by (auto simp: py_nth_def split: if_splits)

lemma reorder_plain_Inl: "reorder_plain t om = Inl e \<Longrightarrow> e = IndexError"
  by (auto simp: reorder_plain_def py_nth_def dest!: sequence_err_Inl split: sum.splits if_splits)

lemma reorder_arrays_Inl: "reorder_arrays t om lm = Inl e \<Longrightarrow> e = IndexError"
  by (auto simp: reorder_arrays_def Let_def py_nth_def dest!: sequence_err_Inl
      split: sum.splits if_splits)

lemma terminate_strings_Inl: "terminate_strings cfg type t = Inl e \<Longrightarrow> e = IndexError"
  by (auto simp: terminate_strings_def py_nth_def dest!: sequence_err_Inl
      split: sum.splits if_splits)

lemma decode_fields_Inl: "decode_fields cfg type t = Inl e \<Longrightarrow> e = IndexError"
  by (auto simp: decode_fields_def
      dest: reorder_plain_Inl reorder_arrays_Inl terminate_strings_Inl
      split: sum.splits if_splits)

lemma decode_payload_Inl:
  "decode_payload cfg type mbuf0 = Inl e \<Longrightarrow> e = IndexError \<or> e = MAVError Instantiate"
  using zero_pad_length [of "calcsize (format type)" mbuf0]
  by (auto simp: decode_payload_def Let_def struct_unpack_def dest: decode_fields_Inl
      split: sum.splits if_splits)

lemma check_signature_Inl:
  "check_signature H sg msgbuf s c = (Inl e, sg') \<Longrightarrow> e = IndexError \<or> e = TypeError"
  by (auto simp: check_signature_def Let_def split: option.splits if_splits)

subsection \<open>Evaluating the examples\<close>

lemma le_bytes_numeral [simp]:
  "le_bytes (numeral k) x = word_of_int x # le_bytes (pred_numeral k) (x div 256)"
  by (simp add: numeral_eq_Suc)

lemma take6_digest:
  "take 6 (digest h) = map (\<lambda>i. ucast (drop_bit (8 * (31 - i)) h)) [0, 1, 2, 3, 4, 5]"
  by (simp add: digest_def take_map upt_rec)

lemma example_tail_accepted:
  "example_tail 1000000 = [5, 64, 66, 15, 0, 0, 0, 123, 207, 224, 20, 233, 221]"
  by (simp add: example_tail_def Let_def take6_digest example_hash_def)

lemma example_tail_too_old:
  "example_tail 999999 = [5, 63, 66, 15, 0, 0, 0, 123, 207, 222, 96, 17, 62]"
  by (simp add: example_tail_def Let_def take6_digest example_hash_def)

lemma digest_ok_example_tail: "digest_ok example_hash [1, 2, 3] (example_tail 1000000)"
  by (simp add: example_tail_accepted digest_ok_def take6_digest example_hash_def)

subsection \<open>Replay protection in \<^verbatim>\<open>check_signature\<close>\<close>


text \<open>
  Claim C2.  The claim asks that a signed frame submitted twice is accepted the first time
  and refused the second time.  \<^verbatim>\<open>check_signature\<close> stores a timestamp only for a stream
  it sees for the first time.  For a stream that already has an entry, a frame with a
  correct digest and a timestamp above the stored one is accepted, the entry is left as it
  was, and the same frame submitted again is accepted again: the only change of the first
  call is the session timestamp.
\<close>

theorem check_signature_known_stream_replay:
  assumes "13 \<le> length msgbuf"
    and "stream_timestamps sg (frame_stream_key msgbuf srcSystem' srcComponent') = Some prev"
    and "prev < frame_timestamp msgbuf"
    and "secret_key sg = Some key"
    and "digest_ok H key msgbuf"
  shows "check_signature H sg msgbuf srcSystem' srcComponent' =
           (Inr True, sg\<lparr>timestamp := max (timestamp sg) (frame_timestamp msgbuf)\<rparr>)
       \<and> check_signature H (sg\<lparr>timestamp := max (timestamp sg) (frame_timestamp msgbuf)\<rparr>)
            msgbuf srcSystem' srcComponent' =
           (Inr True, sg\<lparr>timestamp := max (timestamp sg) (frame_timestamp msgbuf)\<rparr>)"
  using assms
  by (auto simp: check_signature_def frame_stream_key_def frame_timestamp_def digest_ok_def Let_def)

theorem check_signature_known_stream_replay_witness:
  "fst (check_signature example_hash
          (example_signing\<lparr>stream_timestamps := [(5, 1, 1) \<mapsto> 5]\<rparr>) (example_tail 1000000) 1 1)
     = Inr True
   \<and> fst (check_signature example_hash
          (snd (check_signature example_hash
             (example_signing\<lparr>stream_timestamps := [(5, 1, 1) \<mapsto> 5]\<rparr>)
             (example_tail 1000000) 1 1))
          (example_tail 1000000) 1 1)
     = Inr True"
proof -
  let ?sg = "example_signing\<lparr>stream_timestamps := [(5, 1, 1) \<mapsto> 5]\<rparr>"
  have len: "13 \<le> length (example_tail 1000000)"
    by (simp add: example_tail_accepted)
  have key: "frame_stream_key (example_tail 1000000) 1 1 = (5, 1, 1)"
    by (simp add: example_tail_accepted frame_stream_key_def)
  have known: "stream_timestamps ?sg (frame_stream_key (example_tail 1000000) 1 1) = Some 5"
    by (simp add: key)
  have sk: "secret_key ?sg = Some [1, 2, 3]"
    by (simp add: example_signing_def)
  have ts: "5 < frame_timestamp (example_tail 1000000)"
    by (simp add: example_tail_accepted frame_timestamp_def)
  show ?thesis
    using check_signature_known_stream_replay [OF len known ts sk digest_ok_example_tail]
    by simp
qed

text \<open>
  Claim C4.  For a frame whose stream key has no entry in \<^verbatim>\<open>stream_timestamps\<close> (and a
  session with a key), \<^verbatim>\<open>check_signature\<close> records the timestamp as the stream's entry
  exactly when the timestamp plus 6 000 000 is at least the session timestamp, and it
  returns \<^verbatim>\<open>True\<close> exactly when, besides, the digest matches.  A first-seen stream with
  an older timestamp is refused and gets no entry.
\<close>

theorem check_signature_new_stream:
  assumes "13 \<le> length msgbuf"
    and "stream_timestamps sg (frame_stream_key msgbuf srcSystem' srcComponent') = None"
    and "secret_key sg = Some key"
  shows "fst (check_signature H sg msgbuf srcSystem' srcComponent') =
           Inr (timestamp sg \<le> frame_timestamp msgbuf + 6000000 \<and> digest_ok H key msgbuf)
       \<and> stream_timestamps (snd (check_signature H sg msgbuf srcSystem' srcComponent'))
            (frame_stream_key msgbuf srcSystem' srcComponent') =
           (if timestamp sg \<le> frame_timestamp msgbuf + 6000000
            then Some (frame_timestamp msgbuf) else None)"
  using assms
  by (auto simp: check_signature_def frame_stream_key_def frame_timestamp_def digest_ok_def Let_def)

theorem check_signature_new_stream_witness:
  "fst (check_signature example_hash example_signing (example_tail 1000000) 1 1) = Inr True
   \<and> stream_timestamps
        (snd (check_signature example_hash example_signing (example_tail 1000000) 1 1))
        (5, 1, 1) = Some 1000000
   \<and> fst (check_signature example_hash example_signing (example_tail 999999) 1 1) = Inr False
   \<and> stream_timestamps
        (snd (check_signature example_hash example_signing (example_tail 999999) 1 1))
        (5, 1, 1) = None"
proof -
  have len: "13 \<le> length (example_tail 1000000)" "13 \<le> length (example_tail 999999)"
    by (simp_all add: example_tail_accepted example_tail_too_old)
  have key: "frame_stream_key (example_tail 1000000) 1 1 = (5, 1, 1)"
    "frame_stream_key (example_tail 999999) 1 1 = (5, 1, 1)"
    by (simp_all add: example_tail_accepted example_tail_too_old frame_stream_key_def)
  have new: "stream_timestamps example_signing (frame_stream_key (example_tail 1000000) 1 1) = None"
    "stream_timestamps example_signing (frame_stream_key (example_tail 999999) 1 1) = None"
    by (simp_all add: example_signing_def)
  have sk: "secret_key example_signing = Some [1, 2, 3]"
    by (simp add: example_signing_def)
  have ts: "frame_timestamp (example_tail 1000000) = 1000000"
    "frame_timestamp (example_tail 999999) = 999999"
    by (simp_all add: example_tail_accepted example_tail_too_old frame_timestamp_def)
  have now: "timestamp example_signing = 7000000"
    by (simp add: example_signing_def)
  show ?thesis
    using check_signature_new_stream [OF len(1) new(1) sk, of example_hash]
      check_signature_new_stream [OF len(2) new(2) sk, of example_hash]
    by (simp add: key ts digest_ok_example_tail now)
qed

subsection \<open>The ways through \<^verbatim>\<open>decode\<close>\<close>

text \<open>
  Every call of \<^verbatim>\<open>decode\<close> ends in one of nine ways: an error of the header block, one
  of the three checks before the signing block (prefix, length, checksum, the latter with
  its unpack error), the placeholder for an unknown id, an error of the signing block, an
  error of the payload block, or a message.
\<close>

lemma decode_cases [consumes 1, case_names header_err prefix length unknown crc_unpack crc signing payload ok]:
  assumes dec: "decode cfg mav msgbuf = (r, mav')"
  obtains
    e where "decode_header msgbuf = Inl e" "r = Inl e" "mav' = mav"
  | hl magic h where "decode_header msgbuf = Inr (hl, magic, h)"
      "magic \<noteq> PROTOCOL_MARKER_V1" "magic \<noteq> PROTOCOL_MARKER_V2"
      "r = Inl (MAVError InvalidPrefix)" "mav' = mav"
  | hl magic h where "decode_header msgbuf = Inr (hl, magic, h)"
      "magic = PROTOCOL_MARKER_V1 \<or> magic = PROTOCOL_MARKER_V2"
      "mlen h \<noteq> int (length msgbuf) - int (hl + 2 + signature_len_of h)"
      "r = Inl (MAVError InvalidLength)" "mav' = mav"
  | hl magic h where "decode_header msgbuf = Inr (hl, magic, h)"
      "magic = PROTOCOL_MARKER_V1 \<or> magic = PROTOCOL_MARKER_V2"
      "mlen h = int (length msgbuf) - int (hl + 2 + signature_len_of h)"
      "mavlink_map cfg (msgId h) = None"
      "r = Inr (MAVLink_unknown (msgId h) (VArray msgbuf))" "mav' = mav"
  | hl magic h type where "decode_header msgbuf = Inr (hl, magic, h)"
      "magic = PROTOCOL_MARKER_V1 \<or> magic = PROTOCOL_MARKER_V2"
      "mlen h = int (length msgbuf) - int (hl + 2 + signature_len_of h)"
      "mavlink_map cfg (msgId h) = Some type"
      "length (take 2 (drop (length msgbuf - (2 + signature_len_of h)) msgbuf)) \<noteq> 2"
      "r = Inl (MAVError CrcUnpack)" "mav' = mav"
  | hl magic h type where "decode_header msgbuf = Inr (hl, magic, h)"
      "magic = PROTOCOL_MARKER_V1 \<or> magic = PROTOCOL_MARKER_V2"
      "mlen h = int (length msgbuf) - int (hl + 2 + signature_len_of h)"
      "mavlink_map cfg (msgId h) = Some type"
      "r = Inl (MAVError InvalidCrc)" "mav' = mav"
  | hl magic h type e sg where "decode_header msgbuf = Inr (hl, magic, h)"
      "magic = PROTOCOL_MARKER_V1 \<or> magic = PROTOCOL_MARKER_V2"
      "mlen h = int (length msgbuf) - int (hl + 2 + signature_len_of h)"
      "mavlink_map cfg (msgId h) = Some type"
      "decode_signing cfg (signing mav) (signature_len_of h) msgbuf
         (hdr_srcSystem h) (hdr_srcComponent h) (msgId h) = (Inl e, sg)"
      "r = Inl e" "mav' = mav\<lparr>signing := sg\<rparr>"
  | hl magic h type sig_ok e sg where "decode_header msgbuf = Inr (hl, magic, h)"
      "magic = PROTOCOL_MARKER_V1 \<or> magic = PROTOCOL_MARKER_V2"
      "mlen h = int (length msgbuf) - int (hl + 2 + signature_len_of h)"
      "mavlink_map cfg (msgId h) = Some type"
      "decode_signing cfg (signing mav) (signature_len_of h) msgbuf
         (hdr_srcSystem h) (hdr_srcComponent h) (msgId h) = (Inr sig_ok, sg)"
      "decode_payload cfg type
         (drop hl (take (length msgbuf - (2 + signature_len_of h)) msgbuf)) = Inl e"
      "r = Inl e" "mav' = mav\<lparr>signing := sg\<rparr>"
  | hl magic h type sig_ok m sg where "decode_header msgbuf = Inr (hl, magic, h)"
      "magic = PROTOCOL_MARKER_V1 \<or> magic = PROTOCOL_MARKER_V2"
      "mlen h = int (length msgbuf) - int (hl + 2 + signature_len_of h)"
      "mavlink_map cfg (msgId h) = Some type"
      "decode_signing cfg (signing mav) (signature_len_of h) msgbuf
         (hdr_srcSystem h) (hdr_srcComponent h) (msgId h) = (Inr sig_ok, sg)"
      "decode_payload cfg type
         (drop hl (take (length msgbuf - (2 + signature_len_of h)) msgbuf)) = Inr m"
      "r = Inr (decoded h msgbuf sig_ok m)" "mav' = mav\<lparr>signing := sg\<rparr>"
proof (cases "decode_header msgbuf")
  case (Inl e)
  with dec have "r = Inl e" "mav' = mav" by (simp_all add: decode_def)
  with Inl that(1) show ?thesis by blast
next
  case (Inr x)
  obtain hl magic h where x: "x = (hl, magic, h)" by (cases x)
  note hd = Inr[unfolded x]
  let ?sl = "signature_len_of h"
  have dec1: "(r, mav') =
     (if magic \<noteq> PROTOCOL_MARKER_V1 \<and> magic \<noteq> PROTOCOL_MARKER_V2
         then (Inl (MAVError InvalidPrefix), mav)
         else if mlen h \<noteq> int (length msgbuf) - int (hl + 2 + ?sl)
         then (Inl (MAVError InvalidLength), mav)
         else
          (case mavlink_map cfg (msgId h) of
             None \<Rightarrow> (Inr (MAVLink_unknown (msgId h) (VArray msgbuf)), mav)
           | Some type \<Rightarrow>
              (if length (take 2 (drop (length msgbuf - (2 + ?sl)) msgbuf)) \<noteq> 2 then (Inl (MAVError CrcUnpack), mav)
               else
                (if le_uint (take 2 (drop (length msgbuf - (2 + ?sl)) msgbuf)) \<noteq>
                      uint (x25crc cfg (drop 1 (take (length msgbuf - (2 + ?sl)) msgbuf)
                              @ (if crc_extra_flag cfg then [crc_extra type] else []))) \<and> \<not> MAVLINK_IGNORE_CRC cfg
                 then (Inl (MAVError InvalidCrc), mav)
                 else
                  (case decode_signing cfg (signing mav) ?sl msgbuf
                          (hdr_srcSystem h) (hdr_srcComponent h) (msgId h) of
                     (Inl e, sg) \<Rightarrow> (Inl e, mav\<lparr>signing := sg\<rparr>)
                   | (Inr sig_ok, sg) \<Rightarrow>
                      (case decode_payload cfg type
                              (drop hl (take (length msgbuf - (2 + ?sl)) msgbuf)) of
                         Inl e \<Rightarrow> (Inl e, mav\<lparr>signing := sg\<rparr>)
                       | Inr m \<Rightarrow>
                           (Inr (decoded h msgbuf sig_ok m), mav\<lparr>signing := sg\<rparr>)))))))"
    unfolding dec[symmetric] decode_def hd signature_len_of_def decoded_def Let_def
    by (simp only: sum.case prod.case)
  show ?thesis
  proof (cases "magic \<noteq> PROTOCOL_MARKER_V1 \<and> magic \<noteq> PROTOCOL_MARKER_V2")
    case True
    from dec1 have "r = Inl (MAVError InvalidPrefix) \<and> mav' = mav"
      by (simp only: True simp_thms if_True prod.inject)
    with True hd that(2) show ?thesis by blast
  next
    case magic: False
    then have magic': "magic = PROTOCOL_MARKER_V1 \<or> magic = PROTOCOL_MARKER_V2" by blast
    show ?thesis
    proof (cases "mlen h \<noteq> int (length msgbuf) - int (hl + 2 + ?sl)")
      case True
      from dec1 have "r = Inl (MAVError InvalidLength) \<and> mav' = mav"
        by (simp only: magic True simp_thms if_True if_False prod.inject)
      with True magic' hd that(3) show ?thesis by blast
    next
      case len: False
      then have len': "mlen h = int (length msgbuf) - int (hl + 2 + ?sl)" by blast
      show ?thesis
      proof (cases "mavlink_map cfg (msgId h)")
        case None
        from dec1 have "r = Inr (MAVLink_unknown (msgId h) (VArray msgbuf)) \<and> mav' = mav"
          by (simp only: magic len None if_False option.case prod.inject)
        with None magic' len' hd that(4) show ?thesis by blast
      next
        case (Some type)
        show ?thesis
        proof (cases "length (take 2 (drop (length msgbuf - (2 + ?sl)) msgbuf)) \<noteq> 2")
          case True
          from dec1 have "r = Inl (MAVError CrcUnpack) \<and> mav' = mav"
            by (simp only: magic len Some True simp_thms if_True if_False option.case prod.inject)
          with True magic' len' Some hd that(5) show ?thesis by blast
        next
          case cu: False
          show ?thesis
          proof (cases "le_uint (take 2 (drop (length msgbuf - (2 + ?sl)) msgbuf)) \<noteq>
                      uint (x25crc cfg (drop 1 (take (length msgbuf - (2 + ?sl)) msgbuf)
                              @ (if crc_extra_flag cfg then [crc_extra type] else []))) \<and> \<not> MAVLINK_IGNORE_CRC cfg")
            case True
            from dec1 have "r = Inl (MAVError InvalidCrc) \<and> mav' = mav"
              by (simp only: magic len Some cu True simp_thms if_True if_False option.case prod.inject)
            with magic' len' Some hd that(6) show ?thesis by blast
          next
            case crc: False
            obtain rs sg where ds: "decode_signing cfg (signing mav) ?sl msgbuf
                          (hdr_srcSystem h) (hdr_srcComponent h) (msgId h) = (rs, sg)"
              by (cases "decode_signing cfg (signing mav) ?sl msgbuf
                          (hdr_srcSystem h) (hdr_srcComponent h) (msgId h)")
            show ?thesis
            proof (cases rs)
              case (Inl e)
              from dec1 have "r = Inl e \<and> mav' = mav\<lparr>signing := sg\<rparr>"
                by (simp only: magic len Some cu crc ds Inl if_False option.case prod.case sum.case prod.inject)
              with magic' len' Some hd ds[unfolded Inl] that(7) show ?thesis by blast
            next
              case (Inr sig_ok)
              show ?thesis
              proof (cases "decode_payload cfg type
                              (drop hl (take (length msgbuf - (2 + ?sl)) msgbuf))")
                case pe: (Inl e)
                from dec1 have "r = Inl e \<and> mav' = mav\<lparr>signing := sg\<rparr>"
                  by (simp only: magic len Some cu crc ds Inr pe if_False option.case prod.case sum.case prod.inject)
                with magic' len' Some hd ds[unfolded Inr] pe that(8) show ?thesis by blast
              next
                case pm: (Inr m)
                from dec1 have "r = Inr (decoded h msgbuf sig_ok m) \<and> mav' = mav\<lparr>signing := sg\<rparr>"
                  by (simp only: magic len Some cu crc ds Inr pm if_False option.case prod.case sum.case prod.inject)
                with magic' len' Some hd ds[unfolded Inr] pm that(9) show ?thesis by blast
              qed
            qed
          qed
        qed
      qed
    qed
  qed
qed


lemma decode_signing_Inl:
  "decode_signing cfg sg sl msgbuf s c i = (Inl e, sg') \<Longrightarrow>
     e = IndexError \<or> e = TypeError \<or> e = MAVError InvalidSignature"
  by (auto simp: decode_signing_def Let_def dest: check_signature_Inl
      split: option.splits if_splits prod.splits sum.splits)

subsection \<open>The example frames decode\<close>

lemma decode_header_v2: "decode_header frame_v2 = Inr (10, 253, example_header 3)"
  by (simp add: frame_v2_def decode_header_def PROTOCOL_MARKER_V1_def Let_def example_header_def)

lemma decode_header_v1: "decode_header frame_v1 = Inr (6, 254, example_header 3)"
  by (simp add: frame_v1_def decode_header_def PROTOCOL_MARKER_V1_def Let_def example_header_def)

lemma decode_payload_example: "decode_payload example_cfg example_type [52, 18, 7] =
    Inr (example_msg 7 4660)"
  by (simp add: decode_payload_def example_type_def example_cfg_def calcsize_def zero_pad_def
      struct_unpack_def decode_fields_def reorder_plain_def py_nth_def terminate_strings_def
      instantiate_def unpack_code_def wire_order_def Let_def upt_rec example_msg_def)

lemma decode_signing_unsigned:
  "secret_key sg = None \<Longrightarrow> decode_signing cfg sg 0 msgbuf s c i = (Inr False, sg)"
  by (simp add: decode_signing_def MAVLINK_SIGNATURE_BLOCK_LEN_def)

lemma decode_okI:
  assumes "decode_header msgbuf = Inr (hl, magic, h)"
    and "magic = PROTOCOL_MARKER_V1 \<or> magic = PROTOCOL_MARKER_V2"
    and "mlen h = int (length msgbuf) - int (hl + 2 + signature_len_of h)"
    and "mavlink_map cfg (msgId h) = Some type"
    and "le_uint (take 2 (drop (length msgbuf - (2 + signature_len_of h)) msgbuf)) =
           uint (x25crc cfg (drop 1 (take (length msgbuf - (2 + signature_len_of h)) msgbuf)
                             @ (if crc_extra_flag cfg then [crc_extra type] else [])))
         \<or> MAVLINK_IGNORE_CRC cfg"
    and "decode_signing cfg (signing mav) (signature_len_of h) msgbuf
           (hdr_srcSystem h) (hdr_srcComponent h) (msgId h) = (Inr sig_ok, sg)"
    and "decode_payload cfg type
           (drop hl (take (length msgbuf - (2 + signature_len_of h)) msgbuf)) = Inr m"
  shows "decode cfg mav msgbuf = (Inr (decoded h msgbuf sig_ok m), mav\<lparr>signing := sg\<rparr>)"
proof -
  have "0 \<le> mlen h"
    using assms(1) by (auto simp: decode_header_def Let_def split: list.splits if_splits)
  with assms(3) have "2 + signature_len_of h \<le> length msgbuf"
    by linarith
  then have two: "length (take 2 (drop (length msgbuf - (2 + signature_len_of h)) msgbuf)) = 2"
    by simp
  show ?thesis
    unfolding decode_def assms(1) Let_def signature_len_of_def [symmetric]
    using assms(2-) two
    by (auto simp: decoded_def simp del: length_take length_drop)
qed

lemma decode_frame_v2:
  "decode example_cfg example_mav frame_v2 =
     (Inr (decoded (example_header 3) frame_v2 False (example_msg 7 4660)), example_mav)"
proof -
  have sl: "signature_len_of (example_header 3) = 0"
    by (simp add: signature_len_of_def example_header_def)
  have crc: "x25crc example_cfg [3, 0, 0, 0, 1, 1, 0, 0, 0, 52, 18, 7, 50] = 41739"
    by (simp add: example_cfg_def x25crc_spec_def crc_accumulate_def Let_def)
  have sg: "signing example_mav = no_signing" "secret_key no_signing = None"
    by (simp_all add: example_mav_def no_signing_def)
  have cfg: "mavlink_map example_cfg 0 = Some example_type" "crc_extra_flag example_cfg"
    "crc_extra example_type = 50"
    by (simp_all add: example_cfg_def example_type_def)
  have "decode example_cfg example_mav frame_v2 =
     (Inr (decoded (example_header 3) frame_v2 False (example_msg 7 4660)),
      example_mav\<lparr>signing := no_signing\<rparr>)"
    by (rule decode_okI [OF decode_header_v2, where type = example_type])
      (simp_all add: sl PROTOCOL_MARKER_V2_def cfg crc sg decode_signing_unsigned
         decode_payload_example, simp_all add: frame_v2_def example_header_def cfg crc decode_payload_example)
  then show ?thesis
    by (simp add: example_mav_def)
qed


lemma decode_frame_v1:
  "decode example_cfg example_mav frame_v1 =
     (Inr (decoded (example_header 3) frame_v1 False (example_msg 7 4660)), example_mav)"
proof -
  have sl: "signature_len_of (example_header 3) = 0"
    by (simp add: signature_len_of_def example_header_def)
  have crc: "x25crc example_cfg [3, 0, 1, 1, 0, 52, 18, 7, 50] = 21067"
    by (simp add: example_cfg_def x25crc_spec_def crc_accumulate_def Let_def)
  have sg: "signing example_mav = no_signing" "secret_key no_signing = None"
    by (simp_all add: example_mav_def no_signing_def)
  have cfg: "mavlink_map example_cfg 0 = Some example_type" "crc_extra_flag example_cfg"
    "crc_extra example_type = 50"
    by (simp_all add: example_cfg_def example_type_def)
  have "decode example_cfg example_mav frame_v1 =
     (Inr (decoded (example_header 3) frame_v1 False (example_msg 7 4660)),
      example_mav\<lparr>signing := no_signing\<rparr>)"
    by (rule decode_okI [OF decode_header_v1, where type = example_type])
      (simp_all add: sl PROTOCOL_MARKER_V1_def cfg crc sg decode_signing_unsigned
         decode_payload_example, simp_all add: frame_v1_def example_header_def cfg crc decode_payload_example)
  then show ?thesis
    by (simp add: example_mav_def)
qed

subsection \<open>What \<^verbatim>\<open>decode\<close> stores as the payload\<close>

lemma decode_header_facts:
  assumes "decode_header msgbuf = Inr (hl, magic, h)"
  shows "0 \<le> mlen h" and "magic = PROTOCOL_MARKER_V1 \<longleftrightarrow> hl = 6"
    and "magic \<noteq> PROTOCOL_MARKER_V1 \<longleftrightarrow> hl = 10"
    and "magic = uint (msgbuf ! 0)" and "mlen h = uint (msgbuf ! 1)"
    and "magic = PROTOCOL_MARKER_V1 \<Longrightarrow> signature_len_of h = 0"
  using assms
  by (auto simp: decode_header_def Let_def signature_len_of_def split: list.splits if_splits)

lemma decode_frame_unknown:
  "decode example_cfg example_mav frame_unknown =
     (Inr (MAVLink_unknown 1 (VArray frame_unknown)), example_mav)"
  by (simp add: decode_def decode_header_def frame_unknown_def example_cfg_def Let_def
      PROTOCOL_MARKER_V1_def PROTOCOL_MARKER_V2_def MAVLINK_IFLAG_SIGNED_def)

lemma decode_header_unknown:
  "decode_header frame_unknown = Inr (6, 254, (example_header 3)\<lparr>msgId := 1\<rparr>)"
  by (simp add: decode_header_def frame_unknown_def example_header_def PROTOCOL_MARKER_V1_def)

text \<open>
  Claim C8, as amended.  For a frame that decodes to a message of a registered class, the
  stored \<^verbatim>\<open>_payload\<close> is the slice of the frame from offset 6 up to the checksum,
  whatever the header length.  For a MAVLink 2 frame that is the last four header bytes
  followed by the payload, \<open>mlen + 4\<close> bytes; for a MAVLink 1 frame it is the payload
  itself.  A frame whose message id is not registered decodes, without an error, to the
  \<^verbatim>\<open>MAVLink_unknown\<close> placeholder, whose \<^verbatim>\<open>_payload\<close> is \<^verbatim>\<open>None\<close>.
\<close>

theorem decode_stored_payload:
  assumes "decode cfg mav msgbuf = (Inr m, mav')"
    and "decode_header msgbuf = Inr (hl, magic, h)"
  shows "(mavlink_map cfg (msgId h) = None \<longrightarrow>
          m = MAVLink_unknown (msgId h) (VArray msgbuf) \<and> m_payload m = None)
     \<and> (mavlink_map cfg (msgId h) \<noteq> None \<longrightarrow>
          m_payload m = Some (drop 6 (take (length msgbuf - (2 + signature_len_of h)) msgbuf))
          \<and> (magic = PROTOCOL_MARKER_V2 \<longrightarrow>
               m_payload m = Some (take 4 (drop 6 msgbuf) @ take (nat (mlen h)) (drop 10 msgbuf))
               \<and> int (length (the (m_payload m))) = mlen h + 4)
          \<and> (magic = PROTOCOL_MARKER_V1 \<longrightarrow>
               m_payload m = Some (take (nat (mlen h)) (drop 6 msgbuf))
               \<and> int (length (the (m_payload m))) = mlen h))"
  using assms(1)
proof (cases rule: decode_cases)
  case (ok hl' magic' h' type' sig_ok m0 sg)
  from ok(1) assms(2) have eq: "hl' = hl" "magic' = magic" "h' = h" by simp_all
  note hf = decode_header_facts [OF assms(2)]
  from ok(3) have len: "int (length msgbuf) = mlen h + int (hl + 2 + signature_len_of h)"
    unfolding eq by linarith
  have pay: "m_payload m = Some (drop 6 (take (length msgbuf - (2 + signature_len_of h)) msgbuf))"
    using ok(7) unfolding eq by (simp add: decoded_def)
  have v2: "m_payload m = Some (take 4 (drop 6 msgbuf) @ take (nat (mlen h)) (drop 10 msgbuf))
          \<and> int (length (the (m_payload m))) = mlen h + 4" if "magic = PROTOCOL_MARKER_V2"
  proof -
    from that hf(3) have hl: "hl = 10" by (simp add: PROTOCOL_MARKER_V1_def PROTOCOL_MARKER_V2_def)
    from len hl hf(1) have l: "length msgbuf - (2 + signature_len_of h) = 10 + nat (mlen h)"
      "10 + nat (mlen h) \<le> length msgbuf"
      by linarith+
    have "drop 6 (take (10 + nat (mlen h)) msgbuf) = take (4 + nat (mlen h)) (drop 6 msgbuf)"
      by (simp add: drop_take)
    also have "\<dots> = take 4 (drop 6 msgbuf) @ take (nat (mlen h)) (drop 4 (drop 6 msgbuf))"
      by (rule take_add)
    finally have "drop 6 (take (10 + nat (mlen h)) msgbuf) =
        take 4 (drop 6 msgbuf) @ take (nat (mlen h)) (drop 10 msgbuf)"
      by simp
    moreover have "length (drop 6 (take (10 + nat (mlen h)) msgbuf)) = 4 + nat (mlen h)"
      using l(2) by simp
    ultimately show ?thesis
      using pay l(1) hf(1) by simp
  qed
  have v1: "m_payload m = Some (take (nat (mlen h)) (drop 6 msgbuf))
          \<and> int (length (the (m_payload m))) = mlen h" if "magic = PROTOCOL_MARKER_V1"
  proof -
    from that hf(2) have hl: "hl = 6" by simp
    from len hl hf(1) have l: "length msgbuf - (2 + signature_len_of h) = 6 + nat (mlen h)"
      "6 + nat (mlen h) \<le> length msgbuf"
      by linarith+
    have "drop 6 (take (6 + nat (mlen h)) msgbuf) = take (nat (mlen h)) (drop 6 msgbuf)"
      by (simp add: drop_take)
    moreover have "length (drop 6 (take (6 + nat (mlen h)) msgbuf)) = nat (mlen h)"
      using l(2) by simp
    ultimately show ?thesis
      using pay l(1) hf(1) by simp
  qed
  from ok(4) have "mavlink_map cfg (msgId h) \<noteq> None"
    unfolding eq by simp
  with pay v1 v2 show ?thesis by blast
next
  case (unknown hl' magic' h')
  from unknown(1) assms(2) have eq: "h' = h" by simp
  from unknown(5) have "m = MAVLink_unknown (msgId h) (VArray msgbuf)"
    unfolding eq by simp
  moreover have "m_payload (MAVLink_unknown (msgId h) (VArray msgbuf)) = None"
    by (simp add: MAVLink_unknown_def MAVLink_message_def)
  moreover from unknown(4) have "mavlink_map cfg (msgId h) = None"
    unfolding eq .
  ultimately show ?thesis by simp
qed simp_all

theorem decode_stored_payload_witness:
  "m_payload (projr (fst (decode example_cfg example_mav frame_v2))) = Some [1, 0, 0, 0, 52, 18, 7]
   \<and> m_payload (projr (fst (decode example_cfg example_mav frame_v1))) = Some [52, 18, 7]
   \<and> m_payload (projr (fst (decode example_cfg example_mav frame_unknown))) = None"
proof -
  have m: "mavlink_map example_cfg (msgId (example_header 3)) \<noteq> None"
    by (simp add: example_cfg_def example_header_def)
  have u: "mavlink_map example_cfg (msgId ((example_header 3)\<lparr>msgId := 1\<rparr>)) = None"
    by (simp add: example_cfg_def)
  have v2: "253 = PROTOCOL_MARKER_V2" and v1: "254 = PROTOCOL_MARKER_V1"
    by (simp_all add: PROTOCOL_MARKER_V2_def PROTOCOL_MARKER_V1_def)
  have n: "nat (mlen (example_header 3)) = 3"
    by (simp add: example_header_def)
  have "m_payload (decoded (example_header 3) frame_v2 False (example_msg 7 4660)) =
          Some (take 4 (drop 6 frame_v2) @ take 3 (drop 10 frame_v2))"
    using decode_stored_payload [OF decode_frame_v2 decode_header_v2,
        THEN conjunct2, THEN mp, OF m, THEN conjunct2, THEN conjunct1, THEN mp, OF v2,
        THEN conjunct1]
    unfolding n .
  moreover have "m_payload (decoded (example_header 3) frame_v1 False (example_msg 7 4660)) =
          Some (take 3 (drop 6 frame_v1))"
    using decode_stored_payload [OF decode_frame_v1 decode_header_v1,
        THEN conjunct2, THEN mp, OF m, THEN conjunct2, THEN conjunct2, THEN mp, OF v1,
        THEN conjunct1]
    unfolding n .
  moreover have "m_payload (MAVLink_unknown 1 (VArray frame_unknown)) = None"
    using decode_stored_payload [OF decode_frame_unknown decode_header_unknown,
        THEN conjunct1, THEN mp, OF u, THEN conjunct2] .
  ultimately show ?thesis
    unfolding decode_frame_v2 decode_frame_v1 decode_frame_unknown
    by (simp add: frame_v1_def frame_v2_def)
qed

text \<open>
  Claim C8 as stated fails: the frame with the unregistered id decodes without an error,
  and the message returned does not hold the slice from offset 6 up to the checksum.
\<close>

theorem decode_unknown_payload_counterexample:
  "fst (decode example_cfg example_mav frame_unknown) =
     Inr (MAVLink_unknown 1 (VArray frame_unknown))
   \<and> m_payload (MAVLink_unknown 1 (VArray frame_unknown))
       \<noteq> Some (drop 6 (take (length frame_unknown - 2) frame_unknown))"
  by (simp add: decode_frame_unknown) (simp add: MAVLink_unknown_def MAVLink_message_def)

subsection \<open>The length check after the zero padding\<close>

text \<open>
  Claim C10.  After the zero padding the buffer has at least \<^verbatim>\<open>csize\<close> bytes, so neither
  the payload block nor \<^verbatim>\<open>decode\<close> as a whole ever raises the
  \<^verbatim>\<open>'Bad message of type ... length ... needs ...'\<close> error.
\<close>

theorem decode_never_bad_message_length:
  "csize \<le> length (zero_pad csize mbuf)
   \<and> decode_payload cfg type mbuf \<noteq> Inl (MAVError BadMessageLength)
   \<and> fst (decode cfg mav msgbuf) \<noteq> Inl (MAVError BadMessageLength)"
proof -
  have p: "decode_payload cfg type mbuf \<noteq> Inl (MAVError BadMessageLength)" for type mbuf
    using decode_payload_Inl [of cfg type mbuf] by auto
  obtain r mav' where d: "decode cfg mav msgbuf = (r, mav')"
    by (cases "decode cfg mav msgbuf")
  have "r \<noteq> Inl (MAVError BadMessageLength)"
    using d
  proof (cases rule: decode_cases)
    case (header_err e)
    then show ?thesis
      by (auto simp: decode_header_def Let_def split: list.splits if_splits)
  next
    case (signing hl magic h type e sg)
    then show ?thesis
      by (auto dest: decode_signing_Inl)
  next
    case (payload hl magic h type sig_ok e sg)
    then show ?thesis
      using p by auto
  qed simp_all
  with d p zero_pad_length show ?thesis by simp
qed


subsection \<open>Message equality\<close>












subsection \<open>Trimming in \<^verbatim>\<open>pack\<close>, padding in \<^verbatim>\<open>decode\<close>\<close>

lemma strip_zeros_le: "strip_zeros payload n \<le> n"
  by (induction n) (auto simp: le_Suc_eq)

lemma strip_zeros_pos: "0 < n \<Longrightarrow> 0 < strip_zeros payload n"
  by (induction n) auto

lemma strip_zeros_zero:
  "strip_zeros payload n \<le> i \<Longrightarrow> i < n \<Longrightarrow> payload ! i = 0"
proof (induction n)
  case 0
  then show ?case by simp
next
  case (Suc n)
  then show ?case
    by (cases "i = n") (auto split: if_splits)
qed

lemma strip_zeros_last:
  "1 < strip_zeros payload n \<Longrightarrow> payload ! (strip_zeros payload n - 1) \<noteq> 0"
  by (induction n) (auto split: if_splits)

lemma strip_zeros_append:
  assumes "n \<le> length payload"
  shows "take n payload =
           take (strip_zeros payload n) payload @ replicate (n - strip_zeros payload n) 0"
proof (rule nth_equalityI)
  show "length (take n payload) =
          length (take (strip_zeros payload n) payload @ replicate (n - strip_zeros payload n) 0)"
    using assms strip_zeros_le [of payload n] by simp
next
  fix i assume "i < length (take n payload)"
  with assms have i: "i < n" by simp
  show "take n payload ! i =
          (take (strip_zeros payload n) payload @ replicate (n - strip_zeros payload n) 0) ! i"
  proof (cases "i < strip_zeros payload n")
    case True
    with i assms strip_zeros_le [of payload n] show ?thesis
      by (simp add: nth_append)
  next
    case False
    with i assms strip_zeros_le [of payload n] strip_zeros_zero [of payload n i] show ?thesis
      by (simp add: nth_append)
  qed
qed

lemma pack_B_length: "pack_B x = Inr bs \<Longrightarrow> length bs = 1"
  by (auto simp: pack_B_def pack_code_def wire_order_def numeral_eq_Suc split: if_splits)

lemma pack_H_length: "pack_H x = Inr bs \<Longrightarrow> length bs = 2"
  by (auto simp: pack_H_def pack_code_def wire_order_def numeral_eq_Suc split: if_splits)

lemma concat_err_Cons:
  "concat_err (x # xs) = Inr bs \<longleftrightarrow>
     (\<exists>b rest. x = Inr b \<and> concat_err xs = Inr rest \<and> bs = b @ rest)"
  by (auto simp: concat_err_def split: sum.splits)

lemma concat_err_Nil: "concat_err [] = Inr bs \<longleftrightarrow> bs = []"
  by (auto simp: concat_err_def)

lemma header_pack_v2_length:
  assumes "WIRE_PROTOCOL_VERSION cfg = ''2.0''" and "header_pack cfg h False = Inr hb"
  shows "length hb = 10"
  using assms
  by (auto simp: header_pack_def concat_err_Cons concat_err_Nil dest!: pack_B_length pack_H_length)


lemma sign_packet_Inr:
  "sign_packet cfg sg msgbuf = (Inr out, sg') \<Longrightarrow>
     (\<exists>rest. out = msgbuf @ rest) \<and> sg' = sg\<lparr>timestamp := timestamp sg + 1\<rparr>"
  by (auto simp: sign_packet_def Let_def split: sum.splits option.splits)

lemma sign_packet_state:
  "sign_packet cfg sg msgbuf = (r, sg') \<Longrightarrow> sg' = sg \<or> sg' = sg\<lparr>timestamp := timestamp sg + 1\<rparr>"
  by (auto simp: sign_packet_def Let_def split: sum.splits option.splits)

lemma pack_cases [consumes 1, case_names header_err unsigned sign_err signed]:
  assumes "pack cfg self mav ce payload force = (r, mav')"
  obtains
    e where "header_pack cfg (pack_header cfg self mav payload force) force = Inl e"
      "r = Inl e" "mav' = mav"
  | hb where "header_pack cfg (pack_header cfg self mav payload force) force = Inr hb"
      "\<not> (sign_outgoing (signing mav) \<and> \<not> force)"
      "r = Inr (pack_unsigned cfg hb ce (pack_payload cfg payload force),
                self\<lparr>m_payload := Some (pack_payload cfg payload force),
                     m_header := pack_header cfg self mav payload force,
                     m_msgbuf := Some (pack_unsigned cfg hb ce (pack_payload cfg payload force)),
                     m_crc := Some (uint (x25crc cfg (drop 1 (hb @ pack_payload cfg payload force)
                                            @ (if crc_extra_flag cfg then [ce] else []))))\<rparr>)"
      "mav' = mav"
  | hb e sg where "header_pack cfg (pack_header cfg self mav payload force) force = Inr hb"
      "sign_outgoing (signing mav)" "\<not> force"
      "sign_packet cfg (signing mav) (pack_unsigned cfg hb ce (pack_payload cfg payload force))
         = (Inl e, sg)"
      "r = Inl e" "mav' = mav\<lparr>signing := sg\<rparr>"
  | hb msgbuf3 sg where "header_pack cfg (pack_header cfg self mav payload force) force = Inr hb"
      "sign_outgoing (signing mav)" "\<not> force"
      "sign_packet cfg (signing mav) (pack_unsigned cfg hb ce (pack_payload cfg payload force))
         = (Inr msgbuf3, sg)"
      "r = Inr (msgbuf3,
                self\<lparr>m_payload := Some (pack_payload cfg payload force),
                     m_header := pack_header cfg self mav payload force,
                     m_msgbuf := Some msgbuf3,
                     m_crc := Some (uint (x25crc cfg (drop 1 (hb @ pack_payload cfg payload force)
                                            @ (if crc_extra_flag cfg then [ce] else []))))\<rparr>)"
      "mav' = mav\<lparr>signing := sg\<rparr>"
proof -
  let ?p = "pack_payload cfg payload force"
  let ?h = "pack_header cfg self mav payload force"
  let ?self1 = "\<lambda>hb buf'. self\<lparr>m_payload := Some ?p, m_header := ?h, m_msgbuf := Some buf',
                     m_crc := Some (uint (x25crc cfg (drop 1 (hb @ ?p)
                                            @ (if crc_extra_flag cfg then [ce] else []))))\<rparr>"
  have unfold: "(r, mav') =
    (case header_pack cfg ?h force of
       Inl e \<Rightarrow> (Inl e, mav)
     | Inr hb \<Rightarrow>
        (if sign_outgoing (signing mav) \<and> \<not> force then
           (case sign_packet cfg (signing mav) (pack_unsigned cfg hb ce ?p) of
              (Inl e, sg) \<Rightarrow> (Inl e, mav\<lparr>signing := sg\<rparr>)
            | (Inr msgbuf3, sg) \<Rightarrow>
                (Inr (msgbuf3, (?self1 hb (pack_unsigned cfg hb ce ?p))\<lparr>m_msgbuf := Some msgbuf3\<rparr>),
                 mav\<lparr>signing := sg\<rparr>))
         else (Inr (pack_unsigned cfg hb ce ?p, ?self1 hb (pack_unsigned cfg hb ce ?p)), mav)))"
    unfolding assms [symmetric] pack_def pack_header_def pack_payload_def pack_unsigned_def Let_def
    by (rule refl)
  have upd: "(?self1 hb b)\<lparr>m_msgbuf := Some b'\<rparr> = ?self1 hb b'" for hb b b'
    by simp
  show ?thesis
  proof (cases "header_pack cfg ?h force")
    case (Inl e)
    from unfold have "r = Inl e \<and> mav' = mav"
      by (simp only: Inl sum.case prod.inject)
    with Inl that(1) show ?thesis by blast
  next
    case (Inr hb)
    note u1 = unfold [unfolded Inr sum.case]
    show ?thesis
    proof (cases "sign_outgoing (signing mav) \<and> \<not> force")
      case False
      from u1 [unfolded if_not_P [OF False]]
      have "r = Inr (pack_unsigned cfg hb ce ?p, ?self1 hb (pack_unsigned cfg hb ce ?p))
         \<and> mav' = mav"
        by (simp only: prod.inject)
      with Inr False that(2) show ?thesis by blast
    next
      case True
      note u2 = u1 [unfolded if_P [OF True]]
      obtain rs sg where sp:
        "sign_packet cfg (signing mav) (pack_unsigned cfg hb ce ?p) = (rs, sg)"
        by (cases "sign_packet cfg (signing mav) (pack_unsigned cfg hb ce ?p)")
      show ?thesis
      proof (cases rs)
        case (Inl e)
        from u2 have "r = Inl e \<and> mav' = mav\<lparr>signing := sg\<rparr>"
          by (simp only: sp Inl sum.case prod.case prod.inject)
        with Inr True sp [unfolded Inl] that(3) show ?thesis by blast
      next
        case rs: (Inr msgbuf3)
        from u2 have "r = Inr (msgbuf3, ?self1 hb msgbuf3) \<and> mav' = mav\<lparr>signing := sg\<rparr>"
          by (simp only: sp rs sum.case prod.case prod.inject upd)
        with Inr True sp [unfolded rs] that(4) show ?thesis by blast
      qed
    qed
  qed
qed

lemma pack_session:
  assumes "pack cfg self mav ce payload force = (r, mav')"
  shows "mav' = mav \<or> mav' = mav\<lparr>signing := (signing mav)\<lparr>timestamp := timestamp (signing mav) + 1\<rparr>\<rparr>"
  using assms
proof (cases rule: pack_cases)
  case (sign_err hb e sg)
  from sign_packet_state [OF sign_err(4)] sign_err(6) show ?thesis by auto
next
  case (signed hb msgbuf3 sg)
  from sign_packet_state [OF signed(4)] signed(6) show ?thesis by auto
qed simp_all

lemma pack_v2_result:
  assumes "WIRE_PROTOCOL_VERSION cfg = ''2.0''"
    and "pack cfg self mav ce payload False = (Inr (frame, m'), mav')"
  shows "m_payload m' = Some (take (strip_zeros payload (length payload)) payload)
     \<and> mlen (m_header m') = int (strip_zeros payload (length payload))
     \<and> take (strip_zeros payload (length payload)) (drop 10 frame)
         = take (strip_zeros payload (length payload)) payload"
proof -
  let ?p = "take (strip_zeros payload (length payload)) payload"
  have pp: "pack_payload cfg payload False = ?p"
    using assms(1) by (simp add: pack_payload_def)
  have len: "length ?p = strip_zeros payload (length payload)"
    using strip_zeros_le [of payload "length payload"] by simp
  have ml: "mlen (pack_header cfg self mav payload False) = int (strip_zeros payload (length payload))"
    unfolding pack_header_def pp using len by simp
  have fr: "take (strip_zeros payload (length payload)) (drop 10 (hb @ ?p @ rest)) = ?p"
    if "length hb = 10" for hb rest
    using that len by simp
  from assms(2) show ?thesis
  proof (cases rule: pack_cases)
    case (unsigned hb)
    from header_pack_v2_length [OF assms(1) unsigned(1)] have l: "length hb = 10" .
    from unsigned(3) have "frame = hb @ ?p @ le_bytes 2 (uint (x25crc cfg (drop 1 (hb @ ?p)
                                            @ (if crc_extra_flag cfg then [ce] else []))))"
      and "m_payload m' = Some ?p" and "m_header m' = pack_header cfg self mav payload False"
      by (simp_all add: pp pack_unsigned_def)
    with fr [OF l] ml show ?thesis by simp
  next
    case (signed hb msgbuf3 sg)
    from header_pack_v2_length [OF assms(1) signed(1)] have l: "length hb = 10" .
    from sign_packet_Inr [OF signed(4)] obtain rest where
      "msgbuf3 = pack_unsigned cfg hb ce (pack_payload cfg payload False) @ rest" by blast
    then have "msgbuf3 = hb @ ?p @ (le_bytes 2 (uint (x25crc cfg (drop 1 (hb @ ?p)
                                            @ (if crc_extra_flag cfg then [ce] else [])))) @ rest)"
      by (simp add: pp pack_unsigned_def)
    moreover from signed(5) have "frame = msgbuf3"
      and "m_payload m' = Some ?p" and "m_header m' = pack_header cfg self mav payload False"
      by (simp_all add: pp)
    ultimately show ?thesis
      using fr [OF l] ml by simp
  qed simp_all
qed

lemma pack_B_value:
  "pack_B x = Inr bs \<Longrightarrow> bs = [word_of_int x] \<and> 0 \<le> x \<and> x < 256"
  by (auto simp: pack_B_def pack_code_def wire_order_def split: if_splits)

lemma header_pack_v2_mlen:
  assumes "WIRE_PROTOCOL_VERSION cfg = ''2.0''" and "header_pack cfg h False = Inr hb"
  shows "uint (hb ! 1) = mlen h"
proof -
  from assms(2) have "concat_err (pack_B (PROTOCOL_MARKER cfg) # pack_B (mlen h) #
                   [pack_B (incompat_flags h), pack_B (compat_flags h),
                   pack_B (hdr_seq h), pack_B (hdr_srcSystem h), pack_B (hdr_srcComponent h),
                   pack_H (msgId h AND 0xFFFF), pack_B (drop_bit 16 (msgId h))]) = Inr hb"
    by (simp add: header_pack_def assms(1))
  then obtain b0 r0 where b0: "pack_B (PROTOCOL_MARKER cfg) = Inr b0"
    and r0: "concat_err (pack_B (mlen h) #
                   [pack_B (incompat_flags h), pack_B (compat_flags h),
                   pack_B (hdr_seq h), pack_B (hdr_srcSystem h), pack_B (hdr_srcComponent h),
                   pack_H (msgId h AND 0xFFFF), pack_B (drop_bit 16 (msgId h))]) = Inr r0"
    and hb0: "hb = b0 @ r0"
    unfolding concat_err_Cons [of "pack_B (PROTOCOL_MARKER cfg)"] by blast
  from r0 obtain b1 r1 where b1: "pack_B (mlen h) = Inr b1" and hb1: "r0 = b1 @ r1"
    unfolding concat_err_Cons [of "pack_B (mlen h)"] by blast
  from pack_B_value [OF b1] pack_B_value [OF b0]
  have "hb ! 1 = word_of_int (mlen h)" and "0 \<le> mlen h" and "mlen h < 256"
    unfolding hb0 hb1 by simp_all
  then show ?thesis
    by (simp add: uint_word_of_int take_bit_int_eq_self)
qed

lemma length_le_bytes: "length (le_bytes n x) = n"
  by (induction n arbitrary: x) simp_all

lemma pack_Q_length: "pack_code True FQ (VInt x) = Inr q \<Longrightarrow> length q = 8"
  unfolding pack_code_def wire_order_def
  by (auto simp: length_le_bytes simp del: le_bytes_numeral le_bytes.simps split: if_splits)

lemma sign_packet_length:
  assumes "sign_packet cfg sg msgbuf = (Inr out, sg')"
  shows "take (length msgbuf) out = msgbuf \<and> length out = length msgbuf + 13"
proof -
  obtain r where r: "concat_err [pack_B (link_id sg), pack_code True FQ (VInt (timestamp sg))] = r"
    by simp
  show ?thesis
  proof (cases r)
    case (Inl e)
    with assms r show ?thesis
      by (simp add: sign_packet_def)
  next
    case (Inr bq)
    from r [unfolded Inr] obtain b q where b: "pack_B (link_id sg) = Inr b"
      and q: "pack_code True FQ (VInt (timestamp sg)) = Inr q" and bqe: "bq = b @ q"
      unfolding concat_err_Cons concat_err_Nil by auto
    from pack_B_length [OF b] pack_Q_length [OF q] have l: "length (take 7 bq) = 7"
      unfolding bqe by simp
    from assms r Inr obtain key where
      out: "out = (msgbuf @ take 7 bq) @ take 6 (digest (sha256 cfg (key @ msgbuf @ take 7 bq)))"
      by (auto simp: sign_packet_def Let_def split: option.splits)
    have d: "length (take 6 (digest (sha256 cfg (key @ msgbuf @ take 7 bq)))) = 6"
      by (simp add: length_digest)
    show ?thesis
      unfolding out using l d by (simp del: length_take)
  qed
qed

lemma decode_payload_pad:
  assumes "length mbuf \<le> calcsize (format type)"
  shows "decode_payload cfg type mbuf =
           decode_unpacked cfg type (mbuf @ replicate (calcsize (format type) - length mbuf) 0)"
proof -
  let ?b = "mbuf @ replicate (calcsize (format type) - length mbuf) 0"
  have z: "zero_pad (calcsize (format type)) mbuf = ?b"
    using assms by (simp add: zero_pad_def)
  have l: "length ?b = calcsize (format type)"
    using assms by simp
  have t: "take (calcsize (format type)) ?b = ?b"
    by (rule take_all) (simp only: l order_refl)
  show ?thesis
    unfolding decode_payload_def decode_unpacked_def Let_def z
    by (simp only: l t less_irrefl if_False)
qed

lemma pack_v2_frame:
  assumes "WIRE_PROTOCOL_VERSION cfg = ''2.0''"
    and "pack cfg self mav ce payload False = (Inr (frame, m'), mav')"
  shows "header_pack cfg (m_header m') False = Inr (take 10 frame)
     \<and> uint (frame ! 1) = int (strip_zeros payload (length payload))
     \<and> take (12 + strip_zeros payload (length payload)) frame
         = pack_unsigned cfg (take 10 frame) ce (take (strip_zeros payload (length payload)) payload)
     \<and> length frame = 12 + strip_zeros payload (length payload)
         + (if sign_outgoing (signing mav) then MAVLINK_SIGNATURE_BLOCK_LEN else 0)"
proof -
  let ?n = "strip_zeros payload (length payload)"
  let ?p = "take ?n payload"
  let ?h = "pack_header cfg self mav payload False"
  have pp: "pack_payload cfg payload False = ?p"
    using assms(1) by (simp add: pack_payload_def)
  have len: "length ?p = ?n"
    using strip_zeros_le [of payload "length payload"] by simp
  have ml: "mlen ?h = int ?n"
    unfolding pack_header_def pp using len by simp
  have main: "header_pack cfg ?h False = Inr (take 10 fr)
     \<and> uint (fr ! 1) = int ?n
     \<and> take (12 + ?n) fr = pack_unsigned cfg (take 10 fr) ce ?p
     \<and> length fr = 12 + ?n + length rest"
    if hp: "header_pack cfg ?h False = Inr hb" and fr: "fr = pack_unsigned cfg hb ce ?p @ rest"
    for hb fr rest
  proof -
    from header_pack_v2_length [OF assms(1) hp] have l: "length hb = 10" .
    define c where "c = le_bytes 2 (uint (x25crc cfg (drop 1 (hb @ ?p)
                                            @ (if crc_extra_flag cfg then [ce] else []))))"
    have lc: "length c = 2"
      unfolding c_def by (rule length_le_bytes)
    have pu: "pack_unsigned cfg hb ce ?p = hb @ ?p @ c"
      unfolding c_def by (simp add: pack_unsigned_def)
    have fr': "fr = hb @ ?p @ c @ rest"
      unfolding fr pu by simp
    have t10: "take 10 fr = hb"
      unfolding fr' using l by simp
    have "fr ! 1 = hb ! 1"
      unfolding fr' using l by (simp add: nth_append)
    with header_pack_v2_mlen [OF assms(1) hp] ml
    have a: "uint (fr ! 1) = int ?n"
      by simp
    have b: "take (12 + ?n) fr = hb @ ?p @ c"
      unfolding fr' using l len lc by (simp del: length_take)
    have d: "length fr = 12 + ?n + length rest"
      unfolding fr' using l len lc by (simp del: length_take)
    from hp a b d show ?thesis
      unfolding t10 pu by simp
  qed
  from assms(2) show ?thesis
  proof (cases rule: pack_cases)
    case (unsigned hb)
    from unsigned(3) have fr: "frame = pack_unsigned cfg hb ce ?p @ []"
      and h: "m_header m' = ?h"
      by (simp_all add: pp)
    from unsigned(2) have ns: "\<not> sign_outgoing (signing mav)" by simp
    from main [OF unsigned(1) fr] show ?thesis
      unfolding h using ns by simp
  next
    case (signed hb msgbuf3 sg)
    from sign_packet_length [OF signed(4)]
    have a: "take (length (pack_unsigned cfg hb ce ?p)) msgbuf3 = pack_unsigned cfg hb ce ?p"
      and b: "length msgbuf3 = length (pack_unsigned cfg hb ce ?p) + 13"
      unfolding pp by simp_all
    define rest where "rest = drop (length (pack_unsigned cfg hb ce ?p)) msgbuf3"
    have lr: "length rest = 13"
      unfolding rest_def using b by simp
    from signed(5) have fm: "frame = msgbuf3" and h: "m_header m' = ?h"
      by simp_all
    have fr: "frame = pack_unsigned cfg hb ce ?p @ rest"
      unfolding rest_def fm using a by (metis append_take_drop_id)
    from main [OF signed(1) fr] show ?thesis
      unfolding h lr using signed(2) by (simp add: MAVLINK_SIGNATURE_BLOCK_LEN_def)
  qed simp_all
qed

lemma zero_pad_idem: "zero_pad n (zero_pad n xs) = zero_pad n xs"
  by (simp add: zero_pad_def)

text \<open>
  Claim C6.  When a message is packed as MAVLink 2 without \<^verbatim>\<open>force_mavlink1\<close>, the
  payload kept and sent is the serialized payload without trailing zero bytes: what is cut
  off is zeros only, a payload that is not empty keeps at least one byte, a kept payload of
  more than one byte does not end in zero, and a payload of zeros only becomes the single
  byte zero.  The frame is the ten header bytes, whose length byte is the trimmed length,
  the trimmed payload and the checksum of both, followed by the 13 signature bytes when
  the session signs: nothing of what was cut off is sent.  Padding the trimmed payload
  with zeros up to the length of the serialized payload gives the serialized payload
  back.  The payload block of \<^verbatim>\<open>decode\<close> decodes the fields of a payload that is not
  longer than the size of the class's format from that payload with zeros appended up to
  that size; so it decodes from the trimmed payload what the serialized payload holds.
\<close>

theorem pack_trims_trailing_zeros:
  assumes "WIRE_PROTOCOL_VERSION cfg = ''2.0''"
    and "pack cfg self mav ce payload False = (Inr (frame, m'), mav')"
  shows "let p = take (strip_zeros payload (length payload)) payload in
      m_payload m' = Some p
      \<and> mlen (m_header m') = int (length p)
      \<and> header_pack cfg (m_header m') False = Inr (take 10 frame)
      \<and> uint (frame ! 1) = int (length p)
      \<and> take (length p) (drop 10 frame) = p
      \<and> take (12 + length p) frame = pack_unsigned cfg (take 10 frame) ce p
      \<and> length frame = 12 + length p
           + (if sign_outgoing (signing mav) then MAVLINK_SIGNATURE_BLOCK_LEN else 0)
      \<and> payload = p @ replicate (length payload - length p) 0
      \<and> (payload \<noteq> [] \<longrightarrow> p \<noteq> [])
      \<and> (1 < length p \<longrightarrow> last p \<noteq> 0)
      \<and> (payload \<noteq> [] \<and> set payload \<subseteq> {0} \<longrightarrow> p = [0])
      \<and> zero_pad (length payload) p = payload
      \<and> (length mbuf \<le> calcsize (format type) \<longrightarrow>
           decode_payload cfg type mbuf =
             decode_unpacked cfg type (mbuf @ replicate (calcsize (format type) - length mbuf) 0))
      \<and> (length payload = calcsize (format type) \<longrightarrow>
           decode_payload cfg type p = decode_unpacked cfg type payload)"
proof -
  let ?n = "strip_zeros payload (length payload)"
  let ?p = "take ?n payload"
  note le = strip_zeros_le [of payload "length payload"]
  have len: "length ?p = ?n"
    using le by simp
  have app: "payload = ?p @ replicate (length payload - length ?p) 0"
    using strip_zeros_append [of "length payload" payload] len by simp
  have ne: "?p \<noteq> []" if "payload \<noteq> []"
    using that strip_zeros_pos [of "length payload" payload] len by auto
  have lst: "last ?p \<noteq> 0" if "1 < length ?p"
  proof -
    from that len have "1 < ?n" by simp
    from strip_zeros_last [OF this] have "payload ! (?n - 1) \<noteq> 0" .
    moreover have "last ?p = ?p ! (?n - 1)"
      using that len by (metis last_conv_nth length_0_conv not_less_zero)
    moreover have "?p ! (?n - 1) = payload ! (?n - 1)"
      using that len by simp
    ultimately show ?thesis by simp
  qed
  have zeros: "?p = [0]" if "payload \<noteq> []" "set payload \<subseteq> {0}"
  proof -
    have "\<not> 1 < length ?p"
    proof
      assume a: "1 < length ?p"
      then have "last ?p \<in> set ?p" by (intro last_in_set) auto
      then have "last ?p \<in> set payload" by (rule in_set_takeD)
      with that(2) lst [OF a] show False by auto
    qed
    with ne [OF that(1)] have "length ?p = 1"
      by (cases ?p) auto
    then obtain x where x: "?p = [x]"
      by (cases ?p) auto
    then have "x \<in> set ?p" by simp
    then have "x \<in> set payload" by (rule in_set_takeD)
    with that(2) x show ?thesis by auto
  qed
  have pad: "zero_pad (length payload) ?p = payload"
  proof (cases "length ?p < length payload")
    case True
    then show ?thesis
      using app by (simp add: zero_pad_def del: length_take)
  next
    case False
    with app show ?thesis
      by (simp add: zero_pad_def del: length_take)
  qed
  have dp: "decode_payload cfg type ?p = decode_unpacked cfg type payload"
    if "length payload = calcsize (format type)"
  proof -
    from that le len have "length ?p \<le> calcsize (format type)"
      by simp
    from decode_payload_pad [OF this] show ?thesis
      unfolding that [symmetric] using app by simp
  qed
  have dm: "decode_payload cfg type mbuf =
             decode_unpacked cfg type (mbuf @ replicate (calcsize (format type) - length mbuf) 0)"
    if "length mbuf \<le> calcsize (format type)"
    using that by (rule decode_payload_pad)
  note r = pack_v2_result [OF assms] and f = pack_v2_frame [OF assms]
  show ?thesis
    unfolding Let_def len
  proof (intro conjI impI)
    show "payload = ?p @ replicate (length payload - ?n) 0"
      using app len by simp
    show "zero_pad (length payload) ?p = payload"
      by (rule pad)
    show "?p = [0]" if "payload \<noteq> [] \<and> set payload \<subseteq> {0}"
      using that zeros by blast
    show "last ?p \<noteq> 0" if "1 < ?n"
      using that lst len by simp
    show "?p \<noteq> []" if "payload \<noteq> []"
      using that by (rule ne)
    show "decode_payload cfg type ?p = decode_unpacked cfg type payload"
      if "length payload = calcsize (format type)"
      using that by (rule dp)
    show "decode_payload cfg type mbuf =
             decode_unpacked cfg type (mbuf @ replicate (calcsize (format type) - length mbuf) 0)"
      if "length mbuf \<le> calcsize (format type)"
      using that by (rule dm)
  qed (use r f in simp_all)
qed

lemma pack_example_trimmed:
  "pack example_cfg (example_msg 0 4660) example_mav 50 [52, 18, 0] False =
     (Inr ([253, 2, 0, 0, 0, 1, 1, 0, 0, 0, 52, 18, 143, 210],
           (example_msg 0 4660)
             \<lparr>m_payload := Some [52, 18], m_header := example_header 2,
              m_msgbuf := Some [253, 2, 0, 0, 0, 1, 1, 0, 0, 0, 52, 18, 143, 210],
              m_crc := Some 53903\<rparr>),
      example_mav)"
proof -
  have crc: "x25crc_spec [2, 0, 0, 0, 1, 1, 0, 0, 0, 52, 18, 50] = 53903"
    by (simp add: x25crc_spec_def crc_accumulate_def Let_def)
  show ?thesis
    by (simp add: pack_def Let_def header_pack_def concat_err_def pack_B_def pack_H_def
        pack_code_def wire_order_def example_cfg_def example_mav_def no_signing_def
        example_msg_def MAVLink_message_def MAVLink_header_def example_header_def crc)
qed

lemma decode_unpacked_example:
  "decode_unpacked example_cfg example_type [52, 18, a] = Inr (example_msg (uint a) 4660)"
  by (simp add: decode_unpacked_def example_type_def example_cfg_def calcsize_def
      struct_unpack_def decode_fields_def reorder_plain_def py_nth_def terminate_strings_def
      instantiate_def unpack_code_def wire_order_def Let_def upt_rec example_msg_def)


theorem pack_trims_trailing_zeros_witness:
  "fst (projr (fst (pack example_cfg (example_msg 0 4660) example_mav 50 [52, 18, 0] False)))
     = [253, 2, 0, 0, 0, 1, 1, 0, 0, 0, 52, 18, 143, 210]
   \<and> m_payload (snd (projr (fst (pack example_cfg (example_msg 0 4660) example_mav 50 [52, 18, 0] False))))
     = Some [52, 18]
   \<and> zero_pad 3 [52, 18] = [52, 18, 0]
   \<and> decode_payload example_cfg example_type [52, 18] = Inr (example_msg 0 4660)"
proof -
  have w: "WIRE_PROTOCOL_VERSION example_cfg = ''2.0''"
    by (simp add: example_cfg_def)
  have s: "take (strip_zeros [52, 18, 0] (length [52, 18, 0 :: byte])) [52, 18, 0 :: byte] = [52, 18]"
    by simp
  have c: "calcsize (format example_type) = 3"
    by (simp add: example_type_def calcsize_def)
  have l: "length [52, 18 :: byte] \<le> calcsize (format example_type)"
    by (simp add: c)
  note t = pack_trims_trailing_zeros [OF w pack_example_trimmed,
      where type = example_type and mbuf = "[52, 18]", unfolded Let_def s]
  from t have "m_payload ((example_msg 0 4660)
             \<lparr>m_payload := Some [52, 18], m_header := example_header 2,
              m_msgbuf := Some [253, 2, 0, 0, 0, 1, 1, 0, 0, 0, 52, 18, 143, 210],
              m_crc := Some 53903\<rparr>) = Some [52, 18]"
    by (rule conjunct1)
  moreover from t have "zero_pad (length [52, 18, 0 :: byte]) [52, 18] = [52, 18, 0 :: byte]"
    by blast
  moreover from t l have "decode_payload example_cfg example_type [52, 18] =
      decode_unpacked example_cfg example_type
        ([52, 18] @ replicate (calcsize (format example_type) - length [52, 18 :: byte]) 0)"
    by blast
  ultimately show ?thesis
    using decode_unpacked_example [of 0]
    by (simp add: pack_example_trimmed c) (simp add: zero_pad_def)
qed

subsection \<open>Sequence number and counters\<close>

lemma message_pack_session:
  assumes "message_pack cfg type self mav force = (r, mav')"
  shows "mav' = mav \<or> mav' = mav\<lparr>signing := (signing mav)\<lparr>timestamp := timestamp (signing mav) + 1\<rparr>\<rparr>"
  using assms
  by (auto simp: message_pack_def split: sum.splits dest: pack_session)

text \<open>
  Claim C7, as amended.  \<^verbatim>\<open>MAVLink_message.pack\<close> leaves the session's sequence number
  and its sent counters as they were.  It is \<^verbatim>\<open>MAVLink.send\<close> that, after packing the
  message and writing the frame, advances the sequence number by one modulo 256, counts
  one more packet and adds the length of the frame to the bytes sent.
\<close>

theorem send_advances_sequence:
  "(pack cfg self mav ce payload force = (r, mav1) \<longrightarrow>
      seq mav1 = seq mav \<and> total_packets_sent mav1 = total_packets_sent mav
      \<and> total_bytes_sent mav1 = total_bytes_sent mav)
   \<and> (send cfg mav type mavmsg force = (Inr m1, mav') \<longrightarrow>
      fst (message_pack cfg type mavmsg mav force) = Inr (last (file_writes mav'), m1)
      \<and> file_writes mav' = file_writes mav @ [last (file_writes mav')]
      \<and> seq mav' = (seq mav + 1) mod 256
      \<and> total_packets_sent mav' = total_packets_sent mav + 1
      \<and> total_bytes_sent mav' = total_bytes_sent mav + length (last (file_writes mav')))"
proof -
  have a: "seq mav1 = seq mav \<and> total_packets_sent mav1 = total_packets_sent mav
      \<and> total_bytes_sent mav1 = total_bytes_sent mav"
    if "pack cfg self mav ce payload force = (r, mav1)"
    using pack_session [OF that] by auto
  have b: "fst (message_pack cfg type mavmsg mav force) = Inr (last (file_writes mav'), m1)
      \<and> file_writes mav' = file_writes mav @ [last (file_writes mav')]
      \<and> seq mav' = (seq mav + 1) mod 256
      \<and> total_packets_sent mav' = total_packets_sent mav + 1
      \<and> total_bytes_sent mav' = total_bytes_sent mav + length (last (file_writes mav'))"
    if s: "send cfg mav type mavmsg force = (Inr m1, mav')"
  proof -
    obtain rp mavp where mp: "message_pack cfg type mavmsg mav force = (rp, mavp)"
      by (cases "message_pack cfg type mavmsg mav force")
    from s mp obtain frame where rp: "rp = Inr (frame, m1)"
      and mav': "mav' = mavp\<lparr>file_writes := file_writes mavp @ [frame],
                 seq := (seq mavp + 1) mod 256,
                 total_packets_sent := total_packets_sent mavp + 1,
                 total_bytes_sent := total_bytes_sent mavp + length frame\<rparr>"
      by (cases rp) (auto simp: send_def)
    from message_pack_session [OF mp]
    have keep: "seq mavp = seq mav" "file_writes mavp = file_writes mav"
      "total_packets_sent mavp = total_packets_sent mav"
      "total_bytes_sent mavp = total_bytes_sent mav"
      by auto
    show ?thesis
      using mp rp mav' keep by simp
  qed
  from a b show ?thesis by blast
qed

lemma pack_example:
  "pack example_cfg (example_msg 7 4660) example_mav 50 [52, 18, 7] False =
     (Inr (frame_v2,
           (example_msg 7 4660)
             \<lparr>m_payload := Some [52, 18, 7], m_header := example_header 3,
              m_msgbuf := Some frame_v2, m_crc := Some 41739\<rparr>),
      example_mav)"
proof -
  have crc: "x25crc_spec [3, 0, 0, 0, 1, 1, 0, 0, 0, 52, 18, 7, 50] = 41739"
    by (simp add: x25crc_spec_def crc_accumulate_def Let_def)
  show ?thesis
    by (simp add: pack_def Let_def header_pack_def concat_err_def pack_B_def pack_H_def
        pack_code_def wire_order_def example_cfg_def example_mav_def no_signing_def
        example_msg_def MAVLink_message_def MAVLink_header_def example_header_def crc frame_v2_def)
qed

lemma message_pack_example:
  "message_pack example_cfg example_type (example_msg 7 4660) example_mav False =
     (Inr (frame_v2,
           (example_msg 7 4660)
             \<lparr>m_payload := Some [52, 18, 7], m_header := example_header 3,
              m_msgbuf := Some frame_v2, m_crc := Some 41739\<rparr>),
      example_mav)"
proof -
  have "sequence_err (concat (map (field_args (example_msg 7 4660)) (pack_fields example_type)))
          = Inr [VInt 4660, VInt 7]"
    by (simp add: example_type_def field_args_def example_msg_def)
  moreover have "struct_pack (format example_type) [VInt 4660, VInt 7] = Inr [52, 18, 7]"
    by (simp add: example_type_def struct_pack_def pack_code_def wire_order_def concat_err_def)
  moreover have "crc_extra example_type = 50"
    by (simp add: example_type_def)
  ultimately show ?thesis
    by (simp add: message_pack_def pack_example)
qed

text \<open>
  Claim C7 as stated fails: \<^verbatim>\<open>pack\<close> returns the frame of the example message and the
  session still has the sequence number 0 and no packet or byte counted.
\<close>

theorem pack_keeps_sequence_counterexample:
  "fst (pack example_cfg (example_msg 7 4660) example_mav 50 [52, 18, 7] False) =
     Inr (frame_v2,
          (example_msg 7 4660)
            \<lparr>m_payload := Some [52, 18, 7], m_header := example_header 3,
             m_msgbuf := Some frame_v2, m_crc := Some 41739\<rparr>)
   \<and> seq (snd (pack example_cfg (example_msg 7 4660) example_mav 50 [52, 18, 7] False))
       \<noteq> (seq example_mav + 1) mod 256
   \<and> total_packets_sent (snd (pack example_cfg (example_msg 7 4660) example_mav 50 [52, 18, 7] False))
       = total_packets_sent example_mav
   \<and> total_bytes_sent (snd (pack example_cfg (example_msg 7 4660) example_mav 50 [52, 18, 7] False))
       = total_bytes_sent example_mav"
  by (simp add: pack_example) (simp add: example_mav_def)

theorem send_advances_sequence_witness:
  "seq (snd (send example_cfg example_mav example_type (example_msg 7 4660) False)) = 1
   \<and> total_packets_sent (snd (send example_cfg example_mav example_type (example_msg 7 4660) False)) = 1
   \<and> total_bytes_sent (snd (send example_cfg example_mav example_type (example_msg 7 4660) False)) = 15
   \<and> seq (snd (pack example_cfg (example_msg 7 4660) example_mav 50 [52, 18, 7] False)) = 0"
proof -
  let ?m = "(example_msg 7 4660)
             \<lparr>m_payload := Some [52, 18, 7], m_header := example_header 3,
              m_msgbuf := Some frame_v2, m_crc := Some 41739\<rparr>"
  let ?mav = "example_mav\<lparr>file_writes := file_writes example_mav @ [frame_v2],
               seq := (seq example_mav + 1) mod 256,
               total_packets_sent := total_packets_sent example_mav + 1,
               total_bytes_sent := total_bytes_sent example_mav + length frame_v2\<rparr>"
  have s: "send example_cfg example_mav example_type (example_msg 7 4660) False = (Inr ?m, ?mav)"
    by (simp add: send_def message_pack_example)
  show ?thesis
    using send_advances_sequence [of example_cfg "example_msg 7 4660" example_mav 50 "[52, 18, 7]"
        False _ _ example_type "example_msg 7 4660" ?m ?mav, THEN conjunct2, THEN mp, OF s]
      send_advances_sequence [of example_cfg "example_msg 7 4660" example_mav 50 "[52, 18, 7]"
        False _ _ example_type "example_msg 7 4660" ?m ?mav, THEN conjunct1, THEN mp, OF pack_example]
    by (simp add: s pack_example) (simp add: example_mav_def frame_v2_def)
qed


subsection \<open>The frame length of the streaming parser\<close>

lemma parse_wait:
  assumes "3 \<le> buf_len mav"
    and "uint (buf mav ! buf_index mav) = PROTOCOL_MARKER_V1
         \<or> uint (buf mav ! buf_index mav) = PROTOCOL_MARKER_V2"
    and "buf_len mav < int (candidate_length mav)"
  shows "parse_char_legacy cfg mav =
           (Inr None, mav\<lparr>have_prefix_error := False, expected_length := candidate_length mav\<rparr>)"
  using assms
  unfolding parse_char_legacy_def candidate_length_def candidate_header_len_def
    candidate_signed_def Let_def buf_len_def
  by (auto simp: PROTOCOL_MARKER_V1_def PROTOCOL_MARKER_V2_def add_ac)

lemma parse_consume_unfold:
  assumes "3 \<le> buf_len mav"
    and "uint (buf mav ! buf_index mav) = PROTOCOL_MARKER_V1
         \<or> uint (buf mav ! buf_index mav) = PROTOCOL_MARKER_V2"
    and "int (candidate_length mav) \<le> buf_len mav"
  shows "parse_char_legacy cfg mav =
          (if robust_parsing mav then
             (case candidate_result cfg mav of
                (Inl (MAVError reason), mav4) \<Rightarrow>
                  (Inr (Some (MAVLink_bad_data (VArray (candidate_frame mav)) (VReason reason))),
                   mav4\<lparr>total_receive_errors := total_receive_errors mav4 + 1\<rparr>)
              | (Inl e, mav4) \<Rightarrow> (Inl e, mav4)
              | (Inr m, mav4) \<Rightarrow> (Inr (Some m), mav4))
           else
             (case candidate_result cfg mav of
                (Inl e, mav4) \<Rightarrow> (Inl e, mav4)
              | (Inr m, mav4) \<Rightarrow> (Inr (Some m), mav4)))"
  using assms
  unfolding parse_char_legacy_def candidate_length_def candidate_header_len_def
    candidate_signed_def candidate_result_def candidate_bad_flags_def candidate_frame_def
    consumed_def Let_def buf_len_def
  by (auto simp: PROTOCOL_MARKER_V1_def PROTOCOL_MARKER_V2_def add_ac
      cong: prod.case_cong sum.case_cong error.case_cong)

lemma decode_session:
  assumes "decode cfg mav msgbuf = (r, mav')"
  shows "\<exists>sg. mav' = mav\<lparr>signing := sg\<rparr>"
  using assms
proof (cases rule: decode_cases)
  case (signing hl magic h type e sg)
  then show ?thesis by blast
next
  case (payload hl magic h type sig_ok e sg)
  then show ?thesis by blast
next
  case (ok hl magic h type sig_ok m sg)
  then show ?thesis by blast
qed (auto intro: exI [of _ "signing mav"])

lemma decode_msgbuf:
  assumes "decode cfg mav msgbuf = (Inr m, mav')"
  shows "m_msgbuf m = Some msgbuf"
  using assms
  by (cases rule: decode_cases) (simp_all add: MAVLink_unknown_def decoded_def)

lemma candidate_result_session:
  assumes "candidate_result cfg mav = (r, mav4)"
  shows "\<exists>sg. mav4 = (consumed mav)\<lparr>signing := sg\<rparr>"
proof (cases "candidate_bad_flags mav")
  case True
  with assms have "mav4 = consumed mav"
    by (simp add: candidate_result_def)
  then have "mav4 = (consumed mav)\<lparr>signing := signing (consumed mav)\<rparr>"
    by simp
  then show ?thesis ..
next
  case False
  with assms have "decode cfg (consumed mav) (candidate_frame mav) = (r, mav4)"
    by (simp add: candidate_result_def)
  then show ?thesis
    by (rule decode_session)
qed

lemma candidate_result_msgbuf:
  assumes "candidate_result cfg mav = (Inr m, mav4)"
  shows "m_msgbuf m = Some (candidate_frame mav)"
proof (cases "candidate_bad_flags mav")
  case True
  with assms show ?thesis
    by (simp add: candidate_result_def)
next
  case False
  with assms have "decode cfg (consumed mav) (candidate_frame mav) = (Inr m, mav4)"
    by (simp add: candidate_result_def)
  then show ?thesis
    by (rule decode_msgbuf)
qed

lemma parse_consume:
  assumes three: "3 \<le> buf_len mav"
    and magic: "uint (buf mav ! buf_index mav) = PROTOCOL_MARKER_V1
         \<or> uint (buf mav ! buf_index mav) = PROTOCOL_MARKER_V2"
    and enough: "int (candidate_length mav) \<le> buf_len mav"
    and run: "parse_char_legacy cfg mav = (r, mav')"
  shows "r \<noteq> Inr None"
    and "buf mav' = buf mav"
    and "buf_index mav' = buf_index mav + candidate_length mav"
    and "expected_length mav' = candidate_header_len mav + 2"
    and "r = Inr (Some m) \<Longrightarrow> m_msgbuf m = Some (candidate_frame mav)"
    and "\<not> robust_parsing mav \<Longrightarrow> \<not> candidate_bad_flags mav \<Longrightarrow>
          (r, mav') = (case decode cfg (consumed mav) (candidate_frame mav) of
                         (Inl e, mav4) \<Rightarrow> (Inl e, mav4)
                       | (Inr m, mav4) \<Rightarrow> (Inr (Some m), mav4))"
proof -
  obtain r0 mav4 where r0: "candidate_result cfg mav = (r0, mav4)"
    by (cases "candidate_result cfg mav")
  from candidate_result_session [OF r0] obtain sg where mav4: "mav4 = (consumed mav)\<lparr>signing := sg\<rparr>"
    ..
  note u = parse_consume_unfold [OF three magic enough, of cfg]
  note eq = run [unfolded u r0 prod.case]
  from eq show "r \<noteq> Inr None"
    by (auto split: if_splits sum.splits error.splits)
  from eq mav4 show "buf mav' = buf mav"
    by (auto simp: consumed_def split: if_splits sum.splits error.splits)
  from eq mav4 show "buf_index mav' = buf_index mav + candidate_length mav"
    by (auto simp: consumed_def split: if_splits sum.splits error.splits)
  from eq mav4 show "expected_length mav' = candidate_header_len mav + 2"
    by (auto simp: consumed_def split: if_splits sum.splits error.splits)
  show "m_msgbuf m = Some (candidate_frame mav)" if "r = Inr (Some m)"
  proof (cases r0)
    case (Inl e)
    with eq that show ?thesis
      by (auto simp: MAVLink_bad_data_def split: if_splits error.splits)
  next
    case (Inr m0)
    with r0 have "m_msgbuf m0 = Some (candidate_frame mav)"
      by (simp add: candidate_result_msgbuf)
    with eq Inr that show ?thesis
      by (auto split: if_splits)
  qed
  show "(r, mav') = (case decode cfg (consumed mav) (candidate_frame mav) of
                         (Inl e, mav4) \<Rightarrow> (Inl e, mav4)
                       | (Inr m, mav4) \<Rightarrow> (Inr (Some m), mav4))"
    if "\<not> robust_parsing mav" "\<not> candidate_bad_flags mav"
    using run that unfolding u by (simp add: candidate_result_def)
qed

text \<open>
  Claim C5.  With at least three unconsumed bytes of which the first is a valid magic
  byte, \<^verbatim>\<open>__parse_char_legacy\<close> works with the expected total frame length
  \<open>candidate_length\<close>.  While fewer bytes are buffered it returns \<^verbatim>\<open>None\<close>, changes
  nothing but \<^verbatim>\<open>have_prefix_error\<close> and stores that length as \<^verbatim>\<open>expected_length\<close>.
  Once that many bytes are buffered it does not return \<^verbatim>\<open>None\<close>: it moves the read
  position forward by exactly that length, leaves the buffer as it is, resets
  \<^verbatim>\<open>expected_length\<close> to the header length plus 2, any message it returns has exactly
  those bytes as its raw buffer, and without robust parsing and with valid incompatibility
  flags its outcome is that of \<^verbatim>\<open>decode\<close> on exactly those bytes.
\<close>

theorem parse_char_legacy_frame_length:
  assumes "3 \<le> buf_len mav"
    and "uint (buf mav ! buf_index mav) = PROTOCOL_MARKER_V1
         \<or> uint (buf mav ! buf_index mav) = PROTOCOL_MARKER_V2"
    and "parse_char_legacy cfg mav = (r, mav')"
  shows "(buf_len mav < int (candidate_length mav) \<longrightarrow>
          r = Inr None
          \<and> mav' = mav\<lparr>have_prefix_error := False, expected_length := candidate_length mav\<rparr>)
     \<and> (int (candidate_length mav) \<le> buf_len mav \<longrightarrow>
          r \<noteq> Inr None
          \<and> buf mav' = buf mav
          \<and> buf_index mav' = buf_index mav + candidate_length mav
          \<and> expected_length mav' = candidate_header_len mav + 2
          \<and> (\<forall>m. r = Inr (Some m) \<longrightarrow> m_msgbuf m = Some (candidate_frame mav))
          \<and> (\<not> robust_parsing mav \<and> \<not> candidate_bad_flags mav \<longrightarrow>
               (r, mav') = (case decode cfg (consumed mav) (candidate_frame mav) of
                              (Inl e, mav4) \<Rightarrow> (Inl e, mav4)
                            | (Inr m, mav4) \<Rightarrow> (Inr (Some m), mav4))))"
proof -
  have a: "r = Inr None
          \<and> mav' = mav\<lparr>have_prefix_error := False, expected_length := candidate_length mav\<rparr>"
    if "buf_len mav < int (candidate_length mav)"
    using parse_wait [OF assms(1,2) that, of cfg] assms(3) by simp
  have b: "r \<noteq> Inr None
          \<and> buf mav' = buf mav
          \<and> buf_index mav' = buf_index mav + candidate_length mav
          \<and> expected_length mav' = candidate_header_len mav + 2
          \<and> (\<forall>m. r = Inr (Some m) \<longrightarrow> m_msgbuf m = Some (candidate_frame mav))
          \<and> (\<not> robust_parsing mav \<and> \<not> candidate_bad_flags mav \<longrightarrow>
               (r, mav') = (case decode cfg (consumed mav) (candidate_frame mav) of
                              (Inl e, mav4) \<Rightarrow> (Inl e, mav4)
                            | (Inr m, mav4) \<Rightarrow> (Inr (Some m), mav4)))"
    if "int (candidate_length mav) \<le> buf_len mav"
    using parse_consume [OF assms(1,2) that assms(3)] by blast
  from a b show ?thesis by blast
qed

theorem parse_char_legacy_frame_length_witness:
  "parse_char_legacy example_cfg (example_mav\<lparr>buf := take 5 frame_v2\<rparr>) =
     (Inr None, example_mav\<lparr>buf := take 5 frame_v2, expected_length := 15\<rparr>)
   \<and> fst (parse_char_legacy example_cfg (example_mav\<lparr>buf := frame_v2 @ [254]\<rparr>)) \<noteq> Inr None
   \<and> buf_index (snd (parse_char_legacy example_cfg (example_mav\<lparr>buf := frame_v2 @ [254]\<rparr>))) = 15
   \<and> expected_length (snd (parse_char_legacy example_cfg (example_mav\<lparr>buf := frame_v2 @ [254]\<rparr>))) = 12"
proof -
  let ?a = "example_mav\<lparr>buf := take 5 frame_v2\<rparr>"
  let ?b = "example_mav\<lparr>buf := frame_v2 @ [254]\<rparr>"
  have la: "candidate_length ?a = 15" and lb: "candidate_length ?b = 15"
    and hb: "candidate_header_len ?b = 10"
    by (simp_all add: candidate_length_def candidate_header_len_def candidate_signed_def
        example_mav_def frame_v2_def PROTOCOL_MARKER_V2_def HEADER_LEN_V2_def
        MAVLINK_IFLAG_SIGNED_def)
  have a3: "3 \<le> buf_len ?a" and b3: "3 \<le> buf_len ?b"
    by (simp_all add: buf_len_def example_mav_def frame_v2_def)
  have am: "uint (buf ?a ! buf_index ?a) = PROTOCOL_MARKER_V1
         \<or> uint (buf ?a ! buf_index ?a) = PROTOCOL_MARKER_V2"
    and bm: "uint (buf ?b ! buf_index ?b) = PROTOCOL_MARKER_V1
         \<or> uint (buf ?b ! buf_index ?b) = PROTOCOL_MARKER_V2"
    by (simp_all add: example_mav_def frame_v2_def PROTOCOL_MARKER_V2_def)
  have aw: "buf_len ?a < int (candidate_length ?a)"
    by (simp add: la) (simp add: buf_len_def example_mav_def frame_v2_def)
  have be: "int (candidate_length ?b) \<le> buf_len ?b"
    by (simp add: lb) (simp add: buf_len_def example_mav_def frame_v2_def)
  have pa: "parse_char_legacy example_cfg ?a =
      (fst (parse_char_legacy example_cfg ?a), snd (parse_char_legacy example_cfg ?a))"
    and pb: "parse_char_legacy example_cfg ?b =
      (fst (parse_char_legacy example_cfg ?b), snd (parse_char_legacy example_cfg ?b))"
    by simp_all
  from parse_char_legacy_frame_length [OF a3 am pa, THEN conjunct1, THEN mp, OF aw]
  have "parse_char_legacy example_cfg ?a =
      (Inr None, ?a\<lparr>have_prefix_error := False, expected_length := 15\<rparr>)"
    unfolding la by (metis prod.collapse)
  moreover have "?a\<lparr>have_prefix_error := False, expected_length := 15\<rparr>
      = example_mav\<lparr>buf := take 5 frame_v2, expected_length := 15\<rparr>"
    by (simp add: example_mav_def)
  moreover note parse_char_legacy_frame_length [OF b3 bm pb, THEN conjunct2, THEN mp, OF be]
  ultimately show ?thesis
    by (simp add: lb hb) (simp add: example_mav_def)
qed


subsection \<open>The session after a frame that fails to decode\<close>















end
